theory Spec2Isabelle
  imports Complex_Main
begin

section \<open>The textured sphere source\<close>

text \<open>
  A shallow embedding of \<^verbatim>\<open>Filters/Sources/vtkTexturedSphereSource.cxx\<close>: the
  constructor and \<^verbatim>\<open>RequestData\<close>, which tessellates a sphere into points,
  per-point normals, per-point texture coordinates and triangles.

  Conventions of the model.
  \<^item> The C++ \<^verbatim>\<open>int\<close> is a 32-bit two's complement integer: a value of type
    \<^typ>\<open>int\<close> between \<open>-2147483648\<close> and \<open>2147483647\<close>. Signed overflow, which the
    language leaves undefined, is modelled as the wrap-around of the machine, written out
    at every operation (\<open>add32\<close>, \<open>mul32\<close>). A loop whose counter wraps around runs
    on, so the loops are partial functions and \<open>None\<close> stands for a call that does not
    return.
  \<^item> A C++ \<^verbatim>\<open>double\<close> is either a real number or a non-finite value (an infinity or
    a NaN, the result of a division by zero). The arithmetic on the real numbers is exact:
    \<^verbatim>\<open>sin\<close>, \<^verbatim>\<open>cos\<close>, \<^verbatim>\<open>vtkMath::Pi()\<close> are the exact functions and the
    exact constant, and neither the rounding, underflow and overflow of the operations nor
    the narrowing to \<^verbatim>\<open>float\<close> on insertion into a \<^verbatim>\<open>vtkFloatArray\<close> is
    modelled.
  \<^item> The arrays of the output (\<^verbatim>\<open>vtkPoints\<close>, two \<^verbatim>\<open>vtkFloatArray\<close>s, a
    \<^verbatim>\<open>vtkCellArray\<close>) are lists, \<^verbatim>\<open>InsertNext...\<close> appends at the end, and the
    output object is threaded through the loops as explicit state. The output object
    that the pipeline hands to \<^verbatim>\<open>RequestData\<close> is taken to be there: the model
    starts from empty arrays.
\<close>

subsection \<open>Machine integers\<close>

abbreviation INT_MAX :: int where
  "INT_MAX \<equiv> 2147483647"

abbreviation INT_MIN :: int where
  "INT_MIN \<equiv> - 2147483648"

definition wrap32 :: "int \<Rightarrow> int" where
  "wrap32 n = (n + 2147483648) mod 4294967296 - 2147483648"

definition add32 :: "int \<Rightarrow> int \<Rightarrow> int" where
  "add32 a b = wrap32 (a + b)"

definition mul32 :: "int \<Rightarrow> int \<Rightarrow> int" where
  "mul32 a b = wrap32 (a * b)"

text \<open>
  Modelled from the spec: \<^verbatim>\<open>vtkIdType\<close> is declared in \<^verbatim>\<open>vtkType.h\<close>, which is not
  among the sources. The spec only says that the triangles are index triples referencing
  point positions by offset; the type is taken to be the signed 64-bit integer of the
  toolkit's default configuration, again with the wrap-around written out. Its operands
  here are \<^verbatim>\<open>int\<close> values plus or minus 1.
\<close>

definition wrap64 :: "int \<Rightarrow> int" where
  "wrap64 n = (n + 9223372036854775808) mod 18446744073709551616 - 9223372036854775808"

definition add64 :: "int \<Rightarrow> int \<Rightarrow> int" where
  "add64 a b = wrap64 (a + b)"

definition sub64 :: "int \<Rightarrow> int \<Rightarrow> int" where
  "sub64 a b = wrap64 (a - b)"

subsection \<open>Doubles\<close>

datatype double = Finite real | NonFinite

text \<open>
  A non-finite operand gives a non-finite result. (In IEEE arithmetic a finite number
  divided by an infinity is 0; in this routine a non-finite divisor only arises, for a
  resolution of 0, from operands that are NaN already.)
\<close>

fun dadd :: "double \<Rightarrow> double \<Rightarrow> double" where
  "dadd (Finite a) (Finite b) = Finite (a + b)"
| "dadd _ _ = NonFinite"

fun dsub :: "double \<Rightarrow> double \<Rightarrow> double" where
  "dsub (Finite a) (Finite b) = Finite (a - b)"
| "dsub _ _ = NonFinite"

fun dmul :: "double \<Rightarrow> double \<Rightarrow> double" where
  "dmul (Finite a) (Finite b) = Finite (a * b)"
| "dmul _ _ = NonFinite"

fun ddiv :: "double \<Rightarrow> double \<Rightarrow> double" where
  "ddiv (Finite a) (Finite b) = (if b = 0 then NonFinite else Finite (a / b))"
| "ddiv _ _ = NonFinite"

fun dsin :: "double \<Rightarrow> double" where
  "dsin (Finite a) = Finite (sin a)"
| "dsin NonFinite = NonFinite"

fun dcos :: "double \<Rightarrow> double" where
  "dcos (Finite a) = Finite (cos a)"
| "dcos NonFinite = NonFinite"

fun dsqrt :: "double \<Rightarrow> double" where
  "dsqrt (Finite a) = (if a < 0 then NonFinite else Finite (sqrt a))"
| "dsqrt NonFinite = NonFinite"

text \<open>The conversion of an \<^verbatim>\<open>int\<close> to \<^verbatim>\<open>double\<close> is exact.\<close>

definition dof_int :: "int \<Rightarrow> double" where
  "dof_int n = Finite (of_int n)"

text \<open>
  The order of the finite doubles, for the statements about texture coordinates (the
  routine itself compares doubles only for equality with 0, in line 128). It holds of
  no non-finite value.
\<close>

fun dless :: "double \<Rightarrow> double \<Rightarrow> bool" where
  "dless (Finite a) (Finite b) = (a < b)"
| "dless _ _ = False"

fun dle :: "double \<Rightarrow> double \<Rightarrow> bool" where
  "dle (Finite a) (Finite b) = (a \<le> b)"
| "dle _ _ = False"

subsection \<open>Data\<close>

datatype precision = SINGLE_PRECISION | DOUBLE_PRECISION

datatype data_type = VTK_FLOAT | VTK_DOUBLE

type_synonym vec3 = "double \<times> double \<times> double"

type_synonym vec2 = "double \<times> double"

type_synonym cell = "int \<times> int \<times> int"

text \<open>
  The fields of the source. The radius and the two unused angles are finite numbers,
  as the constructor sets them.
\<close>

record vtkTexturedSphereSource =
  Radius :: real
  ThetaResolution :: int
  PhiResolution :: int
  Theta :: real
  Phi :: real
  OutputPointsPrecision :: precision

record vtkPolyData =
  PointsDataType :: data_type
  Points :: "vec3 list"
  Normals :: "vec3 list"
  TCoords :: "vec2 list"
  Polys :: "cell list"

subsection \<open>Constructor\<close>

text \<open>
  \<^verbatim>\<open>vtkTexturedSphereSource::vtkTexturedSphereSource(int res)\<close>: the resolution is
  raised to 4 when it is smaller, and both resolutions are set to it.
\<close>

definition vtkTexturedSphereSource_new :: "int \<Rightarrow> vtkTexturedSphereSource" where
  "vtkTexturedSphereSource_new res0 =
     (let res = (if res0 < 4 then 4 else res0)
      in \<lparr>Radius = 0.5,
          ThetaResolution = res,
          PhiResolution = res,
          Theta = 0.0,
          Phi = 0.0,
          OutputPointsPrecision = SINGLE_PRECISION\<rparr>)"

subsection \<open>Helpers of vtkMath\<close>

text \<open>
  Modelled from the spec: \<^verbatim>\<open>vtkMath::Norm\<close> is declared in \<^verbatim>\<open>vtkMath.h\<close>, which is
  not among the sources. The spec calls its result the point norm, by which the point
  vector is normalised to unit length: the Euclidean length of the 3-vector.
\<close>

definition Norm :: "vec3 \<Rightarrow> double" where
  "Norm x =
     (case x of (x0, x1, x2) \<Rightarrow> dsqrt (dadd (dadd (dmul x0 x0) (dmul x1 x1)) (dmul x2 x2)))"

subsection \<open>The point loops\<close>

text \<open>
  The body of the inner loop (lines 119 to 143): the point, its normal and its texture
  coordinate are appended to the three arrays. \<open>tc0\<close> is \<^verbatim>\<open>tc[0]\<close>, set by the
  outer loop. The divisor of lines 132 to 134 is the norm, or 1 when the norm compares
  equal to 0.
\<close>

definition point_body ::
  "vtkTexturedSphereSource \<Rightarrow> double \<Rightarrow> double \<Rightarrow> double \<Rightarrow> int \<Rightarrow> vtkPolyData \<Rightarrow> vtkPolyData" where
  "point_body self deltaPhi theta tc0 j out =
     (let phi = dmul (dof_int j) deltaPhi;
          radius = dmul (Finite (Radius self)) (dsin phi);
          x = (dmul radius (dcos theta),
               dmul radius (dsin theta),
               dmul (Finite (Radius self)) (dcos phi));
          out1 = out\<lparr>Points := Points out @ [x]\<rparr>;
          norm0 = Norm x;
          norm = (if norm0 = Finite 0 then Finite 1 else norm0);
          n = (ddiv (fst x) norm, ddiv (fst (snd x)) norm, ddiv (snd (snd x)) norm);
          out2 = out1\<lparr>Normals := Normals out1 @ [n]\<rparr>;
          tc = (tc0, dsub (Finite 1) (ddiv phi (Finite pi)))
      in out2\<lparr>TCoords := TCoords out2 @ [tc]\<rparr>)"

text \<open>
  \<^verbatim>\<open>for (j = ...; j <= this->PhiResolution; j++)\<close>, from the current \<open>j\<close>. The
  increment wraps around at \<open>INT_MAX\<close>.
\<close>

partial_function (option) point_loop_j ::
  "vtkTexturedSphereSource \<Rightarrow> double \<Rightarrow> double \<Rightarrow> double \<Rightarrow> int \<Rightarrow> vtkPolyData
     \<Rightarrow> vtkPolyData option" where
  "point_loop_j self deltaPhi theta tc0 j out =
     (if j \<le> PhiResolution self
      then point_loop_j self deltaPhi theta tc0 (add32 j 1)
             (point_body self deltaPhi theta tc0 j out)
      else Some out)"

text \<open>\<^verbatim>\<open>for (i = ...; i <= this->ThetaResolution; i++)\<close>, from the current \<open>i\<close>.\<close>

partial_function (option) point_loop_i ::
  "vtkTexturedSphereSource \<Rightarrow> double \<Rightarrow> double \<Rightarrow> int \<Rightarrow> vtkPolyData \<Rightarrow> vtkPolyData option" where
  "point_loop_i self deltaPhi deltaTheta i out =
     (if i \<le> ThetaResolution self
      then (let theta = dmul (dof_int i) deltaTheta;
                tc0 = ddiv theta (dmul (Finite 2.0) (Finite pi))
            in Option.bind (point_loop_j self deltaPhi theta tc0 0 out)
                 (\<lambda>out'. point_loop_i self deltaPhi deltaTheta (add32 i 1) out'))
      else Some out)"

subsection \<open>The connectivity loops\<close>

text \<open>
  The body of the inner loop (lines 154 to 161): two cells are appended. The right-hand
  sides of lines 154 and 156 are \<^verbatim>\<open>int\<close> expressions, converted to
  \<^verbatim>\<open>vtkIdType\<close> on assignment; lines 155 and 160 compute in \<^verbatim>\<open>vtkIdType\<close>. The
  second cell is built in place from the first:
  \<^verbatim>\<open>pts[1] = pts[2]; pts[2] = pts[1] - 1;\<close>.
\<close>

definition poly_body :: "vtkTexturedSphereSource \<Rightarrow> int \<Rightarrow> int \<Rightarrow> vtkPolyData \<Rightarrow> vtkPolyData" where
  "poly_body self i j out =
     (let pts0 = add32 (mul32 (add32 (PhiResolution self) 1) i) j;
          pts1 = add64 pts0 1;
          pts2 = add32 (add32 (mul32 (add32 (PhiResolution self) 1) (add32 i 1)) j) 1;
          out1 = out\<lparr>Polys := Polys out @ [(pts0, pts1, pts2)]\<rparr>;
          pts1' = pts2;
          pts2' = sub64 pts1' 1
      in out1\<lparr>Polys := Polys out1 @ [(pts0, pts1', pts2')]\<rparr>)"

partial_function (option) poly_loop_j ::
  "vtkTexturedSphereSource \<Rightarrow> int \<Rightarrow> int \<Rightarrow> vtkPolyData \<Rightarrow> vtkPolyData option" where
  "poly_loop_j self i j out =
     (if j < PhiResolution self
      then poly_loop_j self i (add32 j 1) (poly_body self i j out)
      else Some out)"

partial_function (option) poly_loop_i ::
  "vtkTexturedSphereSource \<Rightarrow> int \<Rightarrow> vtkPolyData \<Rightarrow> vtkPolyData option" where
  "poly_loop_i self i out =
     (if i < ThetaResolution self
      then Option.bind (poly_loop_j self i 0 out)
             (\<lambda>out'. poly_loop_i self (add32 i 1) out')
      else Some out)"

subsection \<open>RequestData\<close>

text \<open>
  \<^verbatim>\<open>numPts\<close> and \<^verbatim>\<open>numPolys\<close> (lines 70 and 74) only size the allocations of the
  containers, whose code is not among the sources: they do not enter the result.
\<close>

definition numPts :: "vtkTexturedSphereSource \<Rightarrow> int" where
  "numPts self = mul32 (add32 (PhiResolution self) 1) (add32 (ThetaResolution self) 1)"

definition numPolys :: "vtkTexturedSphereSource \<Rightarrow> int" where
  "numPolys self = mul32 (mul32 (PhiResolution self) 2) (ThetaResolution self)"

definition newOutput :: "vtkTexturedSphereSource \<Rightarrow> vtkPolyData" where
  "newOutput self =
     \<lparr>PointsDataType =
        (if OutputPointsPrecision self = DOUBLE_PRECISION then VTK_DOUBLE else VTK_FLOAT),
      Points = [], Normals = [], TCoords = [], Polys = []\<rparr>"

text \<open>
  The function returns the status (the literal 1 of line 179, its only \<^verbatim>\<open>return\<close>)
  and the output data set, when its loops come to an end.
\<close>

definition RequestData :: "vtkTexturedSphereSource \<Rightarrow> (int \<times> vtkPolyData) option" where
  "RequestData self =
     (let deltaPhi = ddiv (Finite pi) (dof_int (PhiResolution self));
          deltaTheta = ddiv (dmul (Finite 2.0) (Finite pi)) (dof_int (ThetaResolution self))
      in Option.bind (point_loop_i self deltaPhi deltaTheta 0 (newOutput self))
           (\<lambda>out1. Option.bind (poly_loop_i self 0 out1)
              (\<lambda>out2. Some (1, out2))))"

text \<open>The spec's \<open>generate\<close>: the mesh that \<^verbatim>\<open>RequestData\<close> stores in its output.\<close>

definition generate :: "vtkTexturedSphereSource \<Rightarrow> vtkPolyData option" where
  "generate self = map_option snd (RequestData self)"

subsection \<open>Derived notions used in the statements\<close>

text \<open>
  The values of one iteration, named so that the lemmas can speak of them: the two
  angular steps of lines 108 and 109, the angle and the first texture coordinate of
  lines 112 and 113, the point of lines 119 to 125, the normal of lines 128 to 134, the
  texture coordinate of line 142 and the two cells of lines 154 to 161. Lemmas
  \<open>Points_point_body\<close>, \<open>Normals_point_body\<close>, \<open>TCoords_point_body\<close> and
  \<open>Polys_poly_body\<close> tie them to the loop bodies.
\<close>

definition dPhi :: "vtkTexturedSphereSource \<Rightarrow> double" where
  "dPhi self = ddiv (Finite pi) (dof_int (PhiResolution self))"

definition dTheta :: "vtkTexturedSphereSource \<Rightarrow> double" where
  "dTheta self = ddiv (dmul (Finite 2) (Finite pi)) (dof_int (ThetaResolution self))"

definition theta_at :: "double \<Rightarrow> int \<Rightarrow> double" where
  "theta_at deltaTheta i = dmul (dof_int i) deltaTheta"

definition tc0_at :: "double \<Rightarrow> int \<Rightarrow> double" where
  "tc0_at deltaTheta i = ddiv (theta_at deltaTheta i) (dmul (Finite 2) (Finite pi))"

definition vertex_point :: "vtkTexturedSphereSource \<Rightarrow> double \<Rightarrow> double \<Rightarrow> int \<Rightarrow> vec3" where
  "vertex_point self deltaPhi theta j =
     (let phi = dmul (dof_int j) deltaPhi;
          radius = dmul (Finite (Radius self)) (dsin phi)
      in (dmul radius (dcos theta), dmul radius (dsin theta),
          dmul (Finite (Radius self)) (dcos phi)))"

definition vertex_normal :: "vec3 \<Rightarrow> vec3" where
  "vertex_normal x =
     (let norm = (if Norm x = Finite 0 then Finite 1 else Norm x)
      in (ddiv (fst x) norm, ddiv (fst (snd x)) norm, ddiv (snd (snd x)) norm))"

definition vertex_tcoord :: "double \<Rightarrow> double \<Rightarrow> int \<Rightarrow> vec2" where
  "vertex_tcoord deltaPhi tc0 j = (tc0, dsub (Finite 1) (ddiv (dmul (dof_int j) deltaPhi) (Finite pi)))"

definition cell_A :: "vtkTexturedSphereSource \<Rightarrow> int \<Rightarrow> int \<Rightarrow> cell" where
  "cell_A self i j =
     (let pts0 = add32 (mul32 (add32 (PhiResolution self) 1) i) j;
          pts2 = add32 (add32 (mul32 (add32 (PhiResolution self) 1) (add32 i 1)) j) 1
      in (pts0, add64 pts0 1, pts2))"

definition cell_B :: "vtkTexturedSphereSource \<Rightarrow> int \<Rightarrow> int \<Rightarrow> cell" where
  "cell_B self i j =
     (let pts0 = add32 (mul32 (add32 (PhiResolution self) 1) i) j;
          pts2 = add32 (add32 (mul32 (add32 (PhiResolution self) 1) (add32 i 1)) j) 1
      in (pts0, pts2, sub64 pts2 1))"

text \<open>
  The four loops unrolled over their index ranges: what \<^verbatim>\<open>RequestData\<close> builds
  when no counter wraps around (lemmas \<open>RequestData_returns\<close> and \<open>RequestData_Some\<close>).
\<close>

definition run_loops :: "vtkTexturedSphereSource \<Rightarrow> vtkPolyData" where
  "run_loops self =
     foldl (\<lambda>out i. foldl (\<lambda>out j. poly_body self i j out) out [0..PhiResolution self - 1])
       (foldl (\<lambda>out i. foldl (\<lambda>out j. point_body self (dPhi self) (theta_at (dTheta self) i)
                  (tc0_at (dTheta self) i) j out) out [0..PhiResolution self])
          (newOutput self) [0..ThetaResolution self])
       [0..ThetaResolution self - 1]"

text \<open>The ids of a cell and of all cells of a data set, in the order of insertion.\<close>

definition cell_ids :: "cell \<Rightarrow> int list" where
  "cell_ids c = (case c of (p0, p1, p2) \<Rightarrow> [p0, p1, p2])"

definition poly_ids :: "vtkPolyData \<Rightarrow> int list" where
  "poly_ids out = concat (map cell_ids (Polys out))"

text \<open>
  The sources used as examples: the unit sphere of the spec's concrete scenario, with
  both resolutions 4; the smallest sphere with equal resolutions whose number of points
  exceeds \<open>INT_MAX\<close>;
  two spheres with a resolution of \<open>INT_MAX\<close>; and a sphere with resolutions below the
  minimum of the constructor.
\<close>

definition unit_sphere_4 :: vtkTexturedSphereSource where
  "unit_sphere_4 =
     \<lparr>Radius = 1.0, ThetaResolution = 4, PhiResolution = 4, Theta = 0.0, Phi = 0.0,
      OutputPointsPrecision = SINGLE_PRECISION\<rparr>"

definition sphere_46340 :: vtkTexturedSphereSource where
  "sphere_46340 =
     \<lparr>Radius = 1.0, ThetaResolution = 46340, PhiResolution = 46340, Theta = 0.0, Phi = 0.0,
      OutputPointsPrecision = SINGLE_PRECISION\<rparr>"



definition sphere_1 :: vtkTexturedSphereSource where
  "sphere_1 =
     \<lparr>Radius = 1.0, ThetaResolution = 1, PhiResolution = 1, Theta = 0.0, Phi = 0.0,
      OutputPointsPrecision = SINGLE_PRECISION\<rparr>"

text \<open>The point of the sphere at two angles, over the real numbers.\<close>

definition sphere_point :: "vtkTexturedSphereSource \<Rightarrow> real \<Rightarrow> real \<Rightarrow> real \<times> real \<times> real" where
  "sphere_point self theta phi =
     (Radius self * sin phi * cos theta, Radius self * sin phi * sin theta, Radius self * cos phi)"

definition fin3 :: "real \<times> real \<times> real \<Rightarrow> vec3" where
  "fin3 p = (Finite (fst p), Finite (fst (snd p)), Finite (snd (snd p)))"




section \<open>Machine arithmetic\<close>

lemma wrap32_id: "INT_MIN \<le> n \<Longrightarrow> n \<le> INT_MAX \<Longrightarrow> wrap32 n = n"
  by (simp add: wrap32_def)

lemma wrap32_range: "INT_MIN \<le> wrap32 n \<and> wrap32 n \<le> INT_MAX"
  unfolding wrap32_def
  using pos_mod_sign [of 4294967296 "n + 2147483648"] pos_mod_bound [of 4294967296 "n + 2147483648"]
  by simp

lemma wrap64_id:
  "- 9223372036854775808 \<le> n \<Longrightarrow> n \<le> 9223372036854775807 \<Longrightarrow> wrap64 n = n"
  by (simp add: wrap64_def)

lemma add32_Suc: "INT_MIN \<le> n + 1 \<Longrightarrow> n < INT_MAX \<Longrightarrow> add32 n 1 = n + 1"
  by (simp add: add32_def wrap32_id)

lemma add32_range: "INT_MIN \<le> add32 a b \<and> add32 a b \<le> INT_MAX"
  by (simp only: add32_def wrap32_range)

section \<open>The loops, characterised\<close>

subsection \<open>Loops that come to an end\<close>

lemma point_loop_j_returns:
  assumes "PhiResolution self < INT_MAX" and "0 \<le> j"
  shows "point_loop_j self dphi theta tc0 j out =
           Some (foldl (\<lambda>out j. point_body self dphi theta tc0 j out) out [j..PhiResolution self])"
  using assms
proof (induction "nat (PhiResolution self + 1 - j)" arbitrary: j out)
  case 0
  then have "\<not> j \<le> PhiResolution self" by simp
  then show ?case by (subst point_loop_j.simps) simp
next
  case (Suc k)
  then have le: "j \<le> PhiResolution self" by simp
  then have up: "[j..PhiResolution self] = j # [j + 1..PhiResolution self]"
    by (simp add: upto_rec1)
  have w: "add32 j 1 = j + 1" using le Suc.prems by (simp add: add32_Suc)
  have "point_loop_j self dphi theta tc0 (j + 1) (point_body self dphi theta tc0 j out) =
          Some (foldl (\<lambda>out j. point_body self dphi theta tc0 j out)
                  (point_body self dphi theta tc0 j out) [j + 1..PhiResolution self])"
    using Suc by (intro Suc.hyps(1)) simp_all
  with le up w show ?case by (subst point_loop_j.simps) simp
qed

lemma point_loop_i_returns:
  assumes "ThetaResolution self < INT_MAX" and "0 \<le> i"
    and "PhiResolution self < INT_MAX \<or> ThetaResolution self < i"
  shows "point_loop_i self dphi dtheta i out =
           Some (foldl (\<lambda>out i. foldl (\<lambda>out j. point_body self dphi (theta_at dtheta i)
                          (tc0_at dtheta i) j out) out [0..PhiResolution self])
                   out [i..ThetaResolution self])"
  using assms
proof (induction "nat (ThetaResolution self + 1 - i)" arbitrary: i out)
  case 0
  then have "\<not> i \<le> ThetaResolution self" by simp
  then show ?case by (subst point_loop_i.simps) simp
next
  case (Suc k)
  let ?inner = "\<lambda>out i. foldl (\<lambda>out j. point_body self dphi (theta_at dtheta i)
                          (tc0_at dtheta i) j out) out [0..PhiResolution self]"
  from Suc have le: "i \<le> ThetaResolution self" by simp
  then have phi: "PhiResolution self < INT_MAX" using Suc.prems(3) by simp
  have up: "[i..ThetaResolution self] = i # [i + 1..ThetaResolution self]"
    using le by (simp add: upto_rec1)
  have w: "add32 i 1 = i + 1" using le Suc.prems by (simp add: add32_Suc)
  have inner: "point_loop_j self dphi (theta_at dtheta i) (tc0_at dtheta i) 0 out = Some (?inner out i)"
    using phi by (simp add: point_loop_j_returns)
  have "point_loop_i self dphi dtheta (i + 1) (?inner out i) =
          Some (foldl ?inner (?inner out i) [i + 1..ThetaResolution self])"
    using Suc phi by (intro Suc.hyps(1)) simp_all
  with le up w inner show ?case
    by (subst point_loop_i.simps) (simp add: Let_def theta_at_def tc0_at_def)
qed

lemma poly_loop_j_returns:
  assumes "PhiResolution self \<le> INT_MAX" and "0 \<le> j"
  shows "poly_loop_j self i j out =
           Some (foldl (\<lambda>out j. poly_body self i j out) out [j..PhiResolution self - 1])"
  using assms
proof (induction "nat (PhiResolution self - j)" arbitrary: j out)
  case 0
  then have "\<not> j < PhiResolution self" by simp
  then show ?case by (subst poly_loop_j.simps) simp
next
  case (Suc k)
  then have le: "j < PhiResolution self" by simp
  then have up: "[j..PhiResolution self - 1] = j # [j + 1..PhiResolution self - 1]"
    by (simp add: upto_rec1)
  have w: "add32 j 1 = j + 1" using le Suc.prems by (simp add: add32_Suc)
  have "poly_loop_j self i (j + 1) (poly_body self i j out) =
          Some (foldl (\<lambda>out j. poly_body self i j out) (poly_body self i j out)
                  [j + 1..PhiResolution self - 1])"
    using Suc by (intro Suc.hyps(1)) simp_all
  with le up w show ?case by (subst poly_loop_j.simps) simp
qed

lemma poly_loop_i_returns:
  assumes "ThetaResolution self \<le> INT_MAX" and "0 \<le> i"
    and "PhiResolution self \<le> INT_MAX \<or> ThetaResolution self \<le> i"
  shows "poly_loop_i self i out =
           Some (foldl (\<lambda>out i. foldl (\<lambda>out j. poly_body self i j out) out
                          [0..PhiResolution self - 1])
                   out [i..ThetaResolution self - 1])"
  using assms
proof (induction "nat (ThetaResolution self - i)" arbitrary: i out)
  case 0
  then have "\<not> i < ThetaResolution self" by simp
  then show ?case by (subst poly_loop_i.simps) simp
next
  case (Suc k)
  let ?inner = "\<lambda>out i. foldl (\<lambda>out j. poly_body self i j out) out [0..PhiResolution self - 1]"
  from Suc have le: "i < ThetaResolution self" by simp
  then have phi: "PhiResolution self \<le> INT_MAX" using Suc.prems(3) by simp
  have up: "[i..ThetaResolution self - 1] = i # [i + 1..ThetaResolution self - 1]"
    using le by (simp add: upto_rec1)
  have w: "add32 i 1 = i + 1" using le Suc.prems by (simp add: add32_Suc)
  have inner: "poly_loop_j self i 0 out = Some (?inner out i)"
    using phi by (simp add: poly_loop_j_returns)
  have "poly_loop_i self (i + 1) (?inner out i) =
          Some (foldl ?inner (?inner out i) [i + 1..ThetaResolution self - 1])"
    using Suc phi by (intro Suc.hyps(1)) simp_all
  with le up w inner show ?case
    by (subst poly_loop_i.simps) simp
qed

subsection \<open>Loops that run on\<close>

lemma point_loop_j_diverges:
  assumes "INT_MAX \<le> PhiResolution self" and "INT_MIN \<le> j" and "j \<le> INT_MAX"
  shows "point_loop_j self dphi theta tc0 j out = None"
proof (rule ccontr)
  assume "point_loop_j self dphi theta tc0 j out \<noteq> None"
  then obtain r where "point_loop_j self dphi theta tc0 j out = Some r" by blast
  then have "\<not> (INT_MAX \<le> PhiResolution self \<and> INT_MIN \<le> j \<and> j \<le> INT_MAX)"
  proof (rule point_loop_j.raw_induct [rotated,
        where P = "\<lambda>self dphi theta tc0 j out r.
          \<not> (INT_MAX \<le> PhiResolution self \<and> INT_MIN \<le> j \<and> j \<le> INT_MAX)"])
    fix loop self dphi theta tc0 j out r
    assume IH: "\<And>self dphi theta tc0 j out r. loop self dphi theta tc0 j out = Some r \<Longrightarrow>
        \<not> (INT_MAX \<le> PhiResolution self \<and> INT_MIN \<le> j \<and> j \<le> INT_MAX)"
      and step: "(if j \<le> PhiResolution self
                  then loop self dphi theta tc0 (add32 j 1) (point_body self dphi theta tc0 j out)
                  else Some out) = Some r"
    show "\<not> (INT_MAX \<le> PhiResolution self \<and> INT_MIN \<le> j \<and> j \<le> INT_MAX)"
    proof
      assume a: "INT_MAX \<le> PhiResolution self \<and> INT_MIN \<le> j \<and> j \<le> INT_MAX"
      then have "j \<le> PhiResolution self" by simp
      with step have "loop self dphi theta tc0 (add32 j 1) (point_body self dphi theta tc0 j out) = Some r"
        by simp
      from IH [OF this] a add32_range [of j 1] show False by simp
    qed
  qed
  with assms show False by simp
qed

lemma point_loop_i_diverges:
  assumes "INT_MAX \<le> ThetaResolution self" and "INT_MIN \<le> i" and "i \<le> INT_MAX"
  shows "point_loop_i self dphi dtheta i out = None"
proof (rule ccontr)
  assume "point_loop_i self dphi dtheta i out \<noteq> None"
  then obtain r where "point_loop_i self dphi dtheta i out = Some r" by blast
  then have "\<not> (INT_MAX \<le> ThetaResolution self \<and> INT_MIN \<le> i \<and> i \<le> INT_MAX)"
  proof (rule point_loop_i.raw_induct [rotated,
        where P = "\<lambda>self dphi dtheta i out r.
          \<not> (INT_MAX \<le> ThetaResolution self \<and> INT_MIN \<le> i \<and> i \<le> INT_MAX)"])
    fix loop self dphi dtheta i out r
    assume IH: "\<And>self dphi dtheta i out r. loop self dphi dtheta i out = Some r \<Longrightarrow>
        \<not> (INT_MAX \<le> ThetaResolution self \<and> INT_MIN \<le> i \<and> i \<le> INT_MAX)"
      and step: "(if i \<le> ThetaResolution self
                  then let theta = dmul (dof_int i) dtheta;
                           tc0 = ddiv theta (dmul (Finite 2.0) (Finite pi))
                       in Option.bind (point_loop_j self dphi theta tc0 0 out)
                            (loop self dphi dtheta (add32 i 1))
                  else Some out) = Some r"
    show "\<not> (INT_MAX \<le> ThetaResolution self \<and> INT_MIN \<le> i \<and> i \<le> INT_MAX)"
    proof
      assume a: "INT_MAX \<le> ThetaResolution self \<and> INT_MIN \<le> i \<and> i \<le> INT_MAX"
      then have "i \<le> ThetaResolution self" by simp
      with step obtain out' where "loop self dphi dtheta (add32 i 1) out' = Some r"
        by (auto simp: Let_def bind_eq_Some_conv)
      from IH [OF this] a add32_range [of i 1] show False by simp
    qed
  qed
  with assms show False by simp
qed

lemma point_loop_i_inner_diverges:
  assumes "INT_MAX \<le> PhiResolution self" and "0 \<le> ThetaResolution self"
  shows "point_loop_i self dphi dtheta 0 out = None"
  using assms
  by (subst point_loop_i.simps) (simp add: Let_def point_loop_j_diverges)

subsection \<open>The call as a whole\<close>

lemma RequestData_returns:
  assumes "ThetaResolution self < INT_MAX"
    and "PhiResolution self < INT_MAX \<or> ThetaResolution self < 0"
  shows "RequestData self = Some (1, run_loops self)"
proof -
  have points: "point_loop_i self dphi dtheta 0 (newOutput self) =
      Some (foldl (\<lambda>out i. foldl (\<lambda>out j. point_body self dphi (theta_at dtheta i)
                  (tc0_at dtheta i) j out) out [0..PhiResolution self])
          (newOutput self) [0..ThetaResolution self])" for dphi dtheta
    using assms by (intro point_loop_i_returns) auto
  have polys: "poly_loop_i self 0 out =
      Some (foldl (\<lambda>out i. foldl (\<lambda>out j. poly_body self i j out) out [0..PhiResolution self - 1])
              out [0..ThetaResolution self - 1])" for out
    using assms by (intro poly_loop_i_returns) auto
  show ?thesis
    by (simp add: RequestData_def Let_def points polys run_loops_def dPhi_def dTheta_def)
qed

lemma RequestData_Some:
  assumes "RequestData self = Some r"
  shows "ThetaResolution self < INT_MAX \<and> (PhiResolution self < INT_MAX \<or> ThetaResolution self < 0)"
proof (rule ccontr)
  assume "\<not> ?thesis"
  then consider "INT_MAX \<le> ThetaResolution self"
    | "INT_MAX \<le> PhiResolution self" "0 \<le> ThetaResolution self"
    by linarith
  then have "point_loop_i self (ddiv (Finite pi) (dof_int (PhiResolution self)))
      (ddiv (dmul (Finite 2.0) (Finite pi)) (dof_int (ThetaResolution self))) 0 (newOutput self) = None"
  proof cases
    case 1
    then show ?thesis by (intro point_loop_i_diverges) simp_all
  next
    case 2
    then show ?thesis by (intro point_loop_i_inner_diverges)
  qed
  then have "RequestData self = None"
    by (simp add: RequestData_def Let_def)
  with assms show False by simp
qed

lemma generate_returns:
  assumes "ThetaResolution self < INT_MAX" and "PhiResolution self < INT_MAX"
  shows "generate self = Some (run_loops self)"
  using assms by (simp add: generate_def RequestData_returns)

lemma generate_Some:
  assumes "generate self = Some mesh"
  shows "mesh = run_loops self"
    and "ThetaResolution self < INT_MAX"
    and "PhiResolution self < INT_MAX \<or> ThetaResolution self < 0"
proof -
  from assms obtain r where r: "RequestData self = Some r" and m: "mesh = snd r"
    by (auto simp: generate_def)
  from RequestData_Some [OF r]
  show range: "ThetaResolution self < INT_MAX"
    "PhiResolution self < INT_MAX \<or> ThetaResolution self < 0"
    by simp_all
  with r have "r = (1, run_loops self)" by (simp add: RequestData_returns)
  with m show "mesh = run_loops self" by simp
qed

subsection \<open>What one iteration appends\<close>

lemma Points_point_body:
  "Points (point_body self dphi theta tc0 j out) = Points out @ [vertex_point self dphi theta j]"
  by (simp add: point_body_def vertex_point_def Let_def)

lemma Normals_point_body:
  "Normals (point_body self dphi theta tc0 j out) =
     Normals out @ [vertex_normal (vertex_point self dphi theta j)]"
  by (simp add: point_body_def vertex_point_def vertex_normal_def Let_def)

lemma TCoords_point_body:
  "TCoords (point_body self dphi theta tc0 j out) = TCoords out @ [vertex_tcoord dphi tc0 j]"
  by (simp add: point_body_def vertex_tcoord_def Let_def)

lemma Polys_point_body: "Polys (point_body self dphi theta tc0 j out) = Polys out"
  by (simp add: point_body_def Let_def)

lemma Polys_poly_body:
  "Polys (poly_body self i j out) = Polys out @ [cell_A self i j, cell_B self i j]"
  by (simp add: poly_body_def cell_A_def cell_B_def Let_def)

lemma Points_poly_body: "Points (poly_body self i j out) = Points out"
  by (simp add: poly_body_def Let_def)

lemma Normals_poly_body: "Normals (poly_body self i j out) = Normals out"
  by (simp add: poly_body_def Let_def)

lemma TCoords_poly_body: "TCoords (poly_body self i j out) = TCoords out"
  by (simp add: poly_body_def Let_def)

subsection \<open>What the loops append\<close>

lemma Points_inner:
  "Points (foldl (\<lambda>out j. point_body self dphi theta tc0 j out) out js) =
     Points out @ map (vertex_point self dphi theta) js"
  by (induction js arbitrary: out) (simp_all add: Points_point_body)

lemma Normals_inner:
  "Normals (foldl (\<lambda>out j. point_body self dphi theta tc0 j out) out js) =
     Normals out @ map (\<lambda>j. vertex_normal (vertex_point self dphi theta j)) js"
  by (induction js arbitrary: out) (simp_all add: Normals_point_body)

lemma TCoords_inner:
  "TCoords (foldl (\<lambda>out j. point_body self dphi theta tc0 j out) out js) =
     TCoords out @ map (vertex_tcoord dphi tc0) js"
  by (induction js arbitrary: out) (simp_all add: TCoords_point_body)

lemma Polys_inner:
  "Polys (foldl (\<lambda>out j. point_body self dphi theta tc0 j out) out js) = Polys out"
  by (induction js arbitrary: out) (simp_all add: Polys_point_body)

lemma Points_outer:
  "Points (foldl (\<lambda>out i. foldl (\<lambda>out j. point_body self dphi (th i) (tc i) j out) out js) out is) =
     Points out @ concat (map (\<lambda>i. map (vertex_point self dphi (th i)) js) is)"
  by (induction "is" arbitrary: out) (simp_all add: Points_inner)

lemma Normals_outer:
  "Normals (foldl (\<lambda>out i. foldl (\<lambda>out j. point_body self dphi (th i) (tc i) j out) out js) out is) =
     Normals out @ concat (map (\<lambda>i. map (\<lambda>j. vertex_normal (vertex_point self dphi (th i) j)) js) is)"
  by (induction "is" arbitrary: out) (simp_all add: Normals_inner)

lemma TCoords_outer:
  "TCoords (foldl (\<lambda>out i. foldl (\<lambda>out j. point_body self dphi (th i) (tc i) j out) out js) out is) =
     TCoords out @ concat (map (\<lambda>i. map (vertex_tcoord dphi (tc i)) js) is)"
  by (induction "is" arbitrary: out) (simp_all add: TCoords_inner)

lemma Polys_outer:
  "Polys (foldl (\<lambda>out i. foldl (\<lambda>out j. point_body self dphi (th i) (tc i) j out) out js) out is) =
     Polys out"
  by (induction "is" arbitrary: out) (simp_all add: Polys_inner)

lemma poly_inner:
  "Polys (foldl (\<lambda>out j. poly_body self i j out) out js) =
     Polys out @ concat (map (\<lambda>j. [cell_A self i j, cell_B self i j]) js) \<and>
   Points (foldl (\<lambda>out j. poly_body self i j out) out js) = Points out \<and>
   Normals (foldl (\<lambda>out j. poly_body self i j out) out js) = Normals out \<and>
   TCoords (foldl (\<lambda>out j. poly_body self i j out) out js) = TCoords out"
  by (induction js arbitrary: out)
    (simp_all add: Polys_poly_body Points_poly_body Normals_poly_body TCoords_poly_body)

lemma poly_outer:
  "Polys (foldl (\<lambda>out i. foldl (\<lambda>out j. poly_body self i j out) out js) out is) =
     Polys out @ concat (map (\<lambda>i. concat (map (\<lambda>j. [cell_A self i j, cell_B self i j]) js)) is) \<and>
   Points (foldl (\<lambda>out i. foldl (\<lambda>out j. poly_body self i j out) out js) out is) = Points out \<and>
   Normals (foldl (\<lambda>out i. foldl (\<lambda>out j. poly_body self i j out) out js) out is) = Normals out \<and>
   TCoords (foldl (\<lambda>out i. foldl (\<lambda>out j. poly_body self i j out) out js) out is) = TCoords out"
  by (induction "is" arbitrary: out) (simp_all add: poly_inner)

subsection \<open>The four arrays of the output\<close>

lemma Points_run_loops:
  "Points (run_loops self) =
     concat (map (\<lambda>i. map (vertex_point self (dPhi self) (theta_at (dTheta self) i))
       [0..PhiResolution self]) [0..ThetaResolution self])"
  by (simp add: run_loops_def poly_outer Points_outer newOutput_def)

lemma Normals_run_loops:
  "Normals (run_loops self) =
     concat (map (\<lambda>i. map (\<lambda>j. vertex_normal (vertex_point self (dPhi self) (theta_at (dTheta self) i) j))
       [0..PhiResolution self]) [0..ThetaResolution self])"
  by (simp add: run_loops_def poly_outer Normals_outer newOutput_def)

lemma TCoords_run_loops:
  "TCoords (run_loops self) =
     concat (map (\<lambda>i. map (vertex_tcoord (dPhi self) (tc0_at (dTheta self) i))
       [0..PhiResolution self]) [0..ThetaResolution self])"
  by (simp add: run_loops_def poly_outer TCoords_outer newOutput_def)

lemma Polys_run_loops:
  "Polys (run_loops self) =
     concat (map (\<lambda>i. concat (map (\<lambda>j. [cell_A self i j, cell_B self i j])
       [0..PhiResolution self - 1])) [0..ThetaResolution self - 1])"
  by (simp add: run_loops_def poly_outer Polys_outer newOutput_def)

subsection \<open>The loops, run\<close>

text \<open>
  The unit sphere with both resolutions 4, obtained by running the loops iteration by
  iteration: the first vertex, the first vertex of the seam column, and all the cells.
\<close>

lemma unit_sphere_4_simps:
  "Radius unit_sphere_4 = 1" "ThetaResolution unit_sphere_4 = 4" "PhiResolution unit_sphere_4 = 4"
  by (simp_all add: unit_sphere_4_def)

lemma unit_sphere_4_returns: "generate unit_sphere_4 = Some (run_loops unit_sphere_4)"
  by (rule generate_returns) (simp_all add: unit_sphere_4_simps)

lemma unit_sphere_4_vertices:
  "map_option (\<lambda>out. Points out ! 0) (generate unit_sphere_4) = Some (Finite 0, Finite 0, Finite 1)"
  "map_option (\<lambda>out. Normals out ! 0) (generate unit_sphere_4) = Some (Finite 0, Finite 0, Finite 1)"
  "map_option (\<lambda>out. TCoords out ! 20) (generate unit_sphere_4) = Some (Finite 1, Finite 1)"
  by (simp_all add: generate_def RequestData_def Let_def newOutput_def
      point_loop_i.simps point_loop_j.simps poly_loop_i.simps poly_loop_j.simps
      point_body_def poly_body_def Norm_def dof_int_def unit_sphere_4_def
      add32_def mul32_def wrap32_def add64_def sub64_def wrap64_def)

lemma unit_sphere_4_cells:
  "map_option Polys (generate unit_sphere_4) = Some
     [(0, 1, 6), (0, 6, 5), (1, 2, 7), (1, 7, 6), (2, 3, 8), (2, 8, 7), (3, 4, 9), (3, 9, 8),
      (5, 6, 11), (5, 11, 10), (6, 7, 12), (6, 12, 11), (7, 8, 13), (7, 13, 12), (8, 9, 14), (8, 14, 13),
      (10, 11, 16), (10, 16, 15), (11, 12, 17), (11, 17, 16), (12, 13, 18), (12, 18, 17), (13, 14, 19), (13, 19, 18),
      (15, 16, 21), (15, 21, 20), (16, 17, 22), (16, 22, 21), (17, 18, 23), (17, 23, 22), (18, 19, 24), (18, 24, 23)]"
  by (simp add: generate_def RequestData_def Let_def newOutput_def
      point_loop_i.simps point_loop_j.simps poly_loop_i.simps poly_loop_j.simps
      point_body_def poly_body_def Norm_def dof_int_def unit_sphere_4_def
      add32_def mul32_def wrap32_def add64_def sub64_def wrap64_def)

subsection \<open>Rows of equal length\<close>

lemma length_concat_uniform:
  "(\<And>xs. xs \<in> set xss \<Longrightarrow> length xs = n) \<Longrightarrow> length (concat xss) = length xss * n"
  by (induction xss) simp_all

lemma nth_concat_uniform:
  "(\<And>xs. xs \<in> set xss \<Longrightarrow> length xs = n) \<Longrightarrow> i < length xss \<Longrightarrow> j < n \<Longrightarrow>
     concat xss ! (i * n + j) = xss ! i ! j"
proof (induction xss arbitrary: i)
  case Nil
  then show ?case by simp
next
  case (Cons xs xss)
  have len: "length xs = n" using Cons.prems(1) by simp
  show ?case
  proof (cases i)
    case 0
    with len Cons.prems(3) show ?thesis by (simp add: nth_append)
  next
    case (Suc k)
    have "concat xss ! (k * n + j) = xss ! k ! j"
      using Cons.IH [of k] Cons.prems Suc by simp
    with len Suc show ?thesis by (simp add: nth_append)
  qed
qed

lemma nth_grid:
  assumes "0 \<le> i" "i \<le> T" "0 \<le> j" "j \<le> P"
  shows "concat (map (\<lambda>i. map (f i) [0..P]) [0..T]) ! nat ((P + 1) * i + j) = f i j"
proof -
  let ?xss = "map (\<lambda>i. map (f i) [0..P]) [0..T]"
  have rows: "\<And>xs. xs \<in> set ?xss \<Longrightarrow> length xs = nat (P + 1)" by auto
  have i: "nat i < length ?xss" using assms by simp
  have j: "nat j < nat (P + 1)" using assms by simp
  have idx: "nat ((P + 1) * i + j) = nat i * nat (P + 1) + nat j"
    using assms by (simp add: nat_add_distrib nat_mult_distrib mult.commute)
  have "concat ?xss ! (nat i * nat (P + 1) + nat j) = ?xss ! nat i ! nat j"
    by (rule nth_concat_uniform [OF rows i j])
  also have "\<dots> = f i j" using assms by simp
  finally show ?thesis by (simp only: idx)
qed

lemma length_grid:
  "length (concat (map (\<lambda>i. map (f i) [0..P]) [0..T])) = nat (T + 1) * nat (P + 1)"
proof -
  have "length (concat (map (\<lambda>i. map (f i) [0..P]) [0..T])) =
          length (map (\<lambda>i. map (f i) [0..P]) [0..T]) * nat (P + 1)"
    by (rule length_concat_uniform) auto
  then show ?thesis by simp
qed

lemma length_cells:
  "length (concat (map (\<lambda>i. concat (map (\<lambda>j. [f i j, g i j]) [0..P - 1])) [0..T - 1])) =
     nat T * (nat P * 2)"
proof -
  let ?row = "\<lambda>i. concat (map (\<lambda>j. [f i j, g i j]) [0..P - 1])"
  have row: "length (?row i) = nat P * 2" for i
  proof -
    have "length (?row i) = length (map (\<lambda>j. [f i j, g i j]) [0..P - 1]) * 2"
      by (rule length_concat_uniform) auto
    then show ?thesis by simp
  qed
  have "length (concat (map ?row [0..T - 1])) = length (map ?row [0..T - 1]) * (nat P * 2)"
    by (rule length_concat_uniform) (auto simp: row)
  then show ?thesis by simp
qed

lemma nth_cells:
  assumes "0 \<le> i" "i < T" "0 \<le> j" "j < P" "b < 2"
  shows "concat (map (\<lambda>i. concat (map (\<lambda>j. [f i j, g i j]) [0..P - 1])) [0..T - 1]) !
           (nat (2 * (P * i + j)) + b) = [f i j, g i j] ! b"
proof -
  let ?row = "\<lambda>i. concat (map (\<lambda>j. [f i j, g i j]) [0..P - 1])"
  let ?xss = "map ?row [0..T - 1]"
  have row: "length (?row i) = nat P * 2" for i
  proof -
    have "length (?row i) = length (map (\<lambda>j. [f i j, g i j]) [0..P - 1]) * 2"
      by (rule length_concat_uniform) auto
    then show ?thesis by simp
  qed
  have rows: "\<And>xs. xs \<in> set ?xss \<Longrightarrow> length xs = nat P * 2"
    by (auto simp: row)
  have i: "nat i < length ?xss" using assms by simp
  have jb: "nat j * 2 + b < nat P * 2" using assms by (simp add: nat_less_iff)
  have idx: "nat (2 * (P * i + j)) + b = nat i * (nat P * 2) + (nat j * 2 + b)"
    using assms by (simp add: nat_add_distrib nat_mult_distrib algebra_simps)
  have "concat ?xss ! (nat i * (nat P * 2) + (nat j * 2 + b)) = ?xss ! nat i ! (nat j * 2 + b)"
    by (rule nth_concat_uniform [OF rows i jb])
  also have "\<dots> = ?row i ! (nat j * 2 + b)" using assms by simp
  also have "\<dots> = map (\<lambda>j. [f i j, g i j]) [0..P - 1] ! nat j ! b"
    by (rule nth_concat_uniform) (use assms in auto)
  also have "\<dots> = [f i j, g i j] ! b" using assms by simp
  finally show ?thesis by (simp only: idx)
qed

subsection \<open>Array sizes and positions\<close>

lemma length_Points_run_loops:
  "length (Points (run_loops self)) = nat (ThetaResolution self + 1) * nat (PhiResolution self + 1)"
  by (simp only: Points_run_loops length_grid)

lemma length_Normals_run_loops:
  "length (Normals (run_loops self)) = nat (ThetaResolution self + 1) * nat (PhiResolution self + 1)"
  by (simp only: Normals_run_loops length_grid)

lemma length_TCoords_run_loops:
  "length (TCoords (run_loops self)) = nat (ThetaResolution self + 1) * nat (PhiResolution self + 1)"
  by (simp only: TCoords_run_loops length_grid)

lemma length_Polys_run_loops:
  "length (Polys (run_loops self)) = nat (ThetaResolution self) * (nat (PhiResolution self) * 2)"
  by (simp only: Polys_run_loops length_cells)

lemma nth_Points_run_loops:
  assumes "0 \<le> i" "i \<le> ThetaResolution self" "0 \<le> j" "j \<le> PhiResolution self"
  shows "Points (run_loops self) ! nat ((PhiResolution self + 1) * i + j) =
           vertex_point self (dPhi self) (theta_at (dTheta self) i) j"
  by (simp only: Points_run_loops nth_grid [OF assms])

lemma nth_Normals_run_loops:
  assumes "0 \<le> i" "i \<le> ThetaResolution self" "0 \<le> j" "j \<le> PhiResolution self"
  shows "Normals (run_loops self) ! nat ((PhiResolution self + 1) * i + j) =
           vertex_normal (vertex_point self (dPhi self) (theta_at (dTheta self) i) j)"
  by (simp only: Normals_run_loops nth_grid [OF assms])

lemma nth_TCoords_run_loops:
  assumes "0 \<le> i" "i \<le> ThetaResolution self" "0 \<le> j" "j \<le> PhiResolution self"
  shows "TCoords (run_loops self) ! nat ((PhiResolution self + 1) * i + j) =
           vertex_tcoord (dPhi self) (tc0_at (dTheta self) i) j"
  by (simp only: TCoords_run_loops nth_grid [OF assms])

lemma nth_Polys_run_loops:
  assumes "0 \<le> i" "i < ThetaResolution self" "0 \<le> j" "j < PhiResolution self"
  shows "Polys (run_loops self) ! nat (2 * (PhiResolution self * i + j)) = cell_A self i j"
    and "Polys (run_loops self) ! (nat (2 * (PhiResolution self * i + j)) + 1) = cell_B self i j"
  using nth_cells [OF assms, of 0 "cell_A self" "cell_B self"]
    nth_cells [OF assms, of 1 "cell_A self" "cell_B self"]
  by (simp_all add: Polys_run_loops)

subsection \<open>The vertex values\<close>

lemma dPhi_finite:
  "PhiResolution self \<noteq> 0 \<Longrightarrow> dPhi self = Finite (pi / of_int (PhiResolution self))"
  by (simp add: dPhi_def dof_int_def)

lemma dTheta_finite:
  "ThetaResolution self \<noteq> 0 \<Longrightarrow> dTheta self = Finite (2 * pi / of_int (ThetaResolution self))"
  by (simp add: dTheta_def dof_int_def)

lemma theta_at_finite: "theta_at (Finite dtheta) i = Finite (of_int i * dtheta)"
  by (simp add: theta_at_def dof_int_def)

lemma tc0_at_finite: "tc0_at (Finite dtheta) i = Finite (of_int i * dtheta / (2 * pi))"
  by (simp add: tc0_at_def theta_at_def dof_int_def)

lemma vertex_point_finite:
  "vertex_point self (Finite dphi) (Finite theta) j =
     fin3 (sphere_point self theta (of_int j * dphi))"
  by (simp add: vertex_point_def sphere_point_def fin3_def dof_int_def Let_def)

lemma vertex_tcoord_finite:
  "vertex_tcoord (Finite dphi) (Finite tc0) j = (Finite tc0, Finite (1 - of_int j * dphi / pi))"
  by (simp add: vertex_tcoord_def dof_int_def)

lemma Norm_finite:
  "Norm (Finite a, Finite b, Finite c) = Finite (sqrt (a * a + b * b + c * c))"
proof -
  have "0 \<le> a * a + b * b + c * c"
    by (intro add_nonneg_nonneg zero_le_square)
  then show ?thesis by (simp add: Norm_def not_less)
qed

lemma Norm_sphere_point: "Norm (fin3 (sphere_point self theta phi)) = Finite \<bar>Radius self\<bar>"
proof -
  let ?R = "Radius self"
  let ?sq = "?R * sin phi * cos theta * (?R * sin phi * cos theta) +
        ?R * sin phi * sin theta * (?R * sin phi * sin theta) +
        ?R * cos phi * (?R * cos phi)"
  have "?sq = ?R\<^sup>2 * ((sin phi)\<^sup>2 * ((cos theta)\<^sup>2 + (sin theta)\<^sup>2) + (cos phi)\<^sup>2)"
    by (simp only: power2_eq_square algebra_simps)
  also have "\<dots> = ?R\<^sup>2"
    by (simp only: sin_cos_squared_add sin_cos_squared_add2 mult_1_right)
  finally have sq: "?sq = ?R\<^sup>2" .
  have "Norm (fin3 (sphere_point self theta phi)) = Finite (sqrt ?sq)"
    by (simp only: fin3_def sphere_point_def Norm_finite fst_conv snd_conv)
  also have "\<dots> = Finite \<bar>?R\<bar>" by (simp only: sq real_sqrt_abs)
  finally show ?thesis .
qed

lemma vertex_normal_finite:
  "vertex_normal (Finite a, Finite b, Finite c) =
     (let d = (if sqrt (a * a + b * b + c * c) = 0 then 1 else sqrt (a * a + b * b + c * c))
      in (Finite (a / d), Finite (b / d), Finite (c / d)))"
  by (simp add: vertex_normal_def Norm_finite Let_def)

lemma Norm_vertex_normal:
  assumes "Norm (Finite a, Finite b, Finite c) = Finite r" and "r \<noteq> 0"
  shows "Norm (vertex_normal (Finite a, Finite b, Finite c)) = Finite 1"
proof -
  let ?s = "a * a + b * b + c * c"
  have r: "r = sqrt ?s" using assms(1) by (simp add: Norm_finite)
  have s: "0 \<le> ?s" by simp
  have rr: "r * r = ?s" using s by (simp add: r)
  have "(a / r) * (a / r) + (b / r) * (b / r) + (c / r) * (c / r) = ?s / (r * r)"
    by (simp add: add_divide_distrib)
  also have "\<dots> = 1" using assms(2) by (simp add: rr [symmetric])
  finally have "sqrt ((a / r) * (a / r) + (b / r) * (b / r) + (c / r) * (c / r)) = 1"
    by simp
  then show ?thesis
    using assms(2) by (simp add: vertex_normal_finite Norm_finite r [symmetric] Let_def)
qed

subsection \<open>The ids of the cells\<close>

lemma cells_exact:
  assumes bound: "(PhiResolution self + 1) * (ThetaResolution self + 1) \<le> INT_MAX"
    and i: "0 \<le> i" "i < ThetaResolution self" and j: "0 \<le> j" "j < PhiResolution self"
  shows "cell_A self i j =
           ((PhiResolution self + 1) * i + j,
            (PhiResolution self + 1) * i + j + 1,
            (PhiResolution self + 1) * i + j + PhiResolution self + 2)"
    and "cell_B self i j =
           ((PhiResolution self + 1) * i + j,
            (PhiResolution self + 1) * i + j + PhiResolution self + 2,
            (PhiResolution self + 1) * i + j + PhiResolution self + 1)"
proof -
  let ?P = "PhiResolution self" and ?T = "ThetaResolution self"
  let ?a = "(?P + 1) * i" and ?b = "(?P + 1) * (i + 1)" and ?X = "(?P + 1) * ?T"
  have m0: "0 \<le> ?a" using i j by simp
  have m1: "?b \<le> ?X"
    using i j by (intro mult_left_mono) simp_all
  have ab: "?b = ?a + ?P + 1" by (simp add: algebra_simps)
  have top: "?X + ?P + 1 \<le> INT_MAX"
    using bound by (simp add: algebra_simps)
  have "0 \<le> ?P * ?T" using i j by simp
  then have tT: "?T \<le> ?X" by (simp add: algebra_simps)
  have p1: "add32 ?P 1 = ?P + 1"
    unfolding add32_def using j top tT i by (intro wrap32_id) linarith+
  have i1: "add32 i 1 = i + 1"
    unfolding add32_def using j top tT i by (intro wrap32_id) linarith+
  have a: "mul32 (?P + 1) i = ?a"
    unfolding mul32_def using m0 m1 ab top j by (intro wrap32_id) linarith+
  have b: "mul32 (?P + 1) (i + 1) = ?b"
    unfolding mul32_def using m0 m1 ab top j by (intro wrap32_id) linarith+
  have c: "add32 ?a j = ?a + j"
    unfolding add32_def using m0 m1 ab top j by (intro wrap32_id) linarith+
  have d: "add32 ?b j = ?b + j"
    unfolding add32_def using m0 m1 ab top j by (intro wrap32_id) linarith+
  have e: "add32 (?b + j) 1 = ?b + j + 1"
    unfolding add32_def using m0 m1 ab top j by (intro wrap32_id) linarith+
  have f: "add64 (?a + j) 1 = ?a + j + 1"
    unfolding add64_def using m0 m1 ab top j by (intro wrap64_id) linarith+
  have "wrap64 (?b + j) = ?b + j"
    using m0 m1 ab top j by (intro wrap64_id) linarith+
  then have g: "sub64 (?b + j + 1) 1 = ?b + j"
    by (simp add: sub64_def)
  have A: "cell_A self i j = (?a + j, ?a + j + 1, ?b + j + 1)"
    by (simp only: cell_A_def Let_def p1 i1 a b c d e f)
  have B: "cell_B self i j = (?a + j, ?b + j + 1, ?b + j)"
    by (simp only: cell_B_def Let_def p1 i1 a b c d e g)
  show "cell_A self i j =
           ((?P + 1) * i + j, (?P + 1) * i + j + 1, (?P + 1) * i + j + ?P + 2)"
    by (simp only: A ab) simp
  show "cell_B self i j =
           ((?P + 1) * i + j, (?P + 1) * i + j + ?P + 2, (?P + 1) * i + j + ?P + 1)"
    by (simp only: B ab) simp
qed

lemma set_poly_ids_run_loops:
  "set (poly_ids (run_loops self)) =
     (\<Union>i\<in>{0..ThetaResolution self - 1}. \<Union>j\<in>{0..PhiResolution self - 1}.
        set (cell_ids (cell_A self i j)) \<union> set (cell_ids (cell_B self i j)))"
  by (simp add: poly_ids_def Polys_run_loops Un_commute)

lemma cell_ids_bounded:
  assumes bound: "(PhiResolution self + 1) * (ThetaResolution self + 1) \<le> INT_MAX"
    and "0 \<le> i" and "i < ThetaResolution self" and "0 \<le> j" and "j < PhiResolution self"
    and "k \<in> set (cell_ids (cell_A self i j)) \<union> set (cell_ids (cell_B self i j))"
  shows "0 \<le> k \<and> k < (PhiResolution self + 1) * (ThetaResolution self + 1)"
proof -
  let ?P = "PhiResolution self" and ?T = "ThetaResolution self"
  let ?base = "(?P + 1) * i + j"
  have lo: "0 \<le> (?P + 1) * i" using assms(2,4,5) by simp
  have "(?P + 1) * i \<le> (?P + 1) * (?T - 1)"
    using assms(3,4,5) by (intro mult_left_mono) simp_all
  then have hi: "?base + ?P + 2 < (?P + 1) * (?T + 1)"
    using assms(5) by (simp add: algebra_simps)
  have "k = ?base \<or> k = ?base + 1 \<or> k = ?base + ?P + 2 \<or> k = ?base + ?P + 1"
    using assms(6) by (auto simp: cell_ids_def cells_exact [OF assms(1-5)])
  with lo hi assms(4,5) show ?thesis by auto
qed

lemma poly_ids_bounded:
  assumes "(PhiResolution self + 1) * (ThetaResolution self + 1) \<le> INT_MAX"
    and "k \<in> set (poly_ids (run_loops self))"
  shows "0 \<le> k \<and> k < (PhiResolution self + 1) * (ThetaResolution self + 1)"
proof -
  from assms(2) obtain i j where "i \<in> {0..ThetaResolution self - 1}" "j \<in> {0..PhiResolution self - 1}"
    and k: "k \<in> set (cell_ids (cell_A self i j)) \<union> set (cell_ids (cell_B self i j))"
    unfolding set_poly_ids_run_loops by blast
  then have "0 \<le> i" "i < ThetaResolution self" "0 \<le> j" "j < PhiResolution self"
    by simp_all
  with assms(1) show ?thesis using k by (rule cell_ids_bounded)
qed

lemma last_point_id_used:
  assumes "(PhiResolution self + 1) * (ThetaResolution self + 1) \<le> INT_MAX"
    and "1 \<le> ThetaResolution self" and "1 \<le> PhiResolution self"
  shows "(PhiResolution self + 1) * (ThetaResolution self + 1) - 1 \<in> set (poly_ids (run_loops self))"
proof -
  let ?i = "ThetaResolution self - 1" and ?j = "PhiResolution self - 1"
  have "cell_A self ?i ?j =
          ((PhiResolution self + 1) * ?i + ?j, (PhiResolution self + 1) * ?i + ?j + 1,
           (PhiResolution self + 1) * ?i + ?j + PhiResolution self + 2)"
    using assms by (intro cells_exact) simp_all
  then have "(PhiResolution self + 1) * (ThetaResolution self + 1) - 1 \<in> set (cell_ids (cell_A self ?i ?j))"
    by (simp add: cell_ids_def algebra_simps)
  moreover have "?i \<in> {0..ThetaResolution self - 1}" "?j \<in> {0..PhiResolution self - 1}"
    using assms by simp_all
  ultimately show ?thesis
    unfolding set_poly_ids_run_loops by blast
qed

lemma unit_sphere_4_the: "the (generate unit_sphere_4) = run_loops unit_sphere_4"
  by (simp add: unit_sphere_4_returns)

lemma sphere_46340_returns: "generate sphere_46340 = Some (run_loops sphere_46340)"
  by (rule generate_returns) (simp_all add: sphere_46340_def)

lemma sphere_1_returns: "generate sphere_1 = Some (run_loops sphere_1)"
  by (rule generate_returns) (simp_all add: sphere_1_def)

subsection \<open>Vertices of a sphere with non-zero resolutions\<close>

lemma nth_Points_finite:
  assumes "ThetaResolution self \<noteq> 0" "PhiResolution self \<noteq> 0"
    and "0 \<le> i" "i \<le> ThetaResolution self" "0 \<le> j" "j \<le> PhiResolution self"
  shows "Points (run_loops self) ! nat ((PhiResolution self + 1) * i + j) =
           fin3 (sphere_point self (of_int i * (2 * pi / of_int (ThetaResolution self)))
                                    (of_int j * (pi / of_int (PhiResolution self))))"
  using assms(1,2)
  by (simp add: nth_Points_run_loops [OF assms(3-6)] dPhi_finite dTheta_finite theta_at_finite
      vertex_point_finite)

lemma nth_Normals_finite:
  assumes "ThetaResolution self \<noteq> 0" "PhiResolution self \<noteq> 0"
    and "0 \<le> i" "i \<le> ThetaResolution self" "0 \<le> j" "j \<le> PhiResolution self"
  shows "Normals (run_loops self) ! nat ((PhiResolution self + 1) * i + j) =
           vertex_normal (Points (run_loops self) ! nat ((PhiResolution self + 1) * i + j))"
  by (simp only: nth_Normals_run_loops [OF assms(3-6)] nth_Points_run_loops [OF assms(3-6)])

lemma nth_TCoords_finite:
  assumes "ThetaResolution self \<noteq> 0" "PhiResolution self \<noteq> 0"
    and "0 \<le> i" "i \<le> ThetaResolution self" "0 \<le> j" "j \<le> PhiResolution self"
  shows "TCoords (run_loops self) ! nat ((PhiResolution self + 1) * i + j) =
           (Finite (of_int i * (2 * pi / of_int (ThetaResolution self)) / (2 * pi)),
            Finite (1 - of_int j * (pi / of_int (PhiResolution self)) / pi))"
  using assms(1,2)
  by (simp add: nth_TCoords_run_loops [OF assms(3-6)] dPhi_finite dTheta_finite tc0_at_finite
      vertex_tcoord_finite)

lemma unit_sphere_4_cells_the:
  "Polys (the (generate unit_sphere_4)) =
     [(0, 1, 6), (0, 6, 5), (1, 2, 7), (1, 7, 6), (2, 3, 8), (2, 8, 7), (3, 4, 9), (3, 9, 8),
      (5, 6, 11), (5, 11, 10), (6, 7, 12), (6, 12, 11), (7, 8, 13), (7, 13, 12), (8, 9, 14), (8, 14, 13),
      (10, 11, 16), (10, 16, 15), (11, 12, 17), (11, 17, 16), (12, 13, 18), (12, 18, 17), (13, 14, 19), (13, 19, 18),
      (15, 16, 21), (15, 21, 20), (16, 17, 22), (16, 22, 21), (17, 18, 23), (17, 23, 22), (18, 19, 24), (18, 24, 23)]"
  using unit_sphere_4_cells by (simp add: unit_sphere_4_returns)

lemma unit_sphere_4_vertices_the:
  "Points (the (generate unit_sphere_4)) ! 0 = (Finite 0, Finite 0, Finite 1)"
  "Normals (the (generate unit_sphere_4)) ! 0 = (Finite 0, Finite 0, Finite 1)"
  "TCoords (the (generate unit_sphere_4)) ! 20 = (Finite 1, Finite 1)"
  using unit_sphere_4_vertices by (simp_all add: unit_sphere_4_returns)

lemma sphere_46340_last_cell:
  "Polys (the (generate sphere_46340)) ! nat (2 * (46340 * 46339 + 46339)) =
     (2147441938, 2147441939, - 2147479016)"
proof -
  have "Polys (run_loops sphere_46340) ! nat (2 * (PhiResolution sphere_46340 * 46339 + 46339)) =
          cell_A sphere_46340 46339 46339"
    by (rule nth_Polys_run_loops) (simp_all add: sphere_46340_def)
  then show ?thesis
    by (simp add: sphere_46340_returns)
      (simp add: sphere_46340_def cell_A_def Let_def add32_def mul32_def wrap32_def add64_def wrap64_def)
qed

subsection \<open>Finite values\<close>







subsection \<open>When the call returns\<close>

lemma generate_returns_iff:
  assumes "4 \<le> ThetaResolution self" and "4 \<le> PhiResolution self"
  shows "generate self \<noteq> None \<longleftrightarrow>
           ThetaResolution self < INT_MAX \<and> PhiResolution self < INT_MAX"
proof
  assume "generate self \<noteq> None"
  then obtain mesh where "generate self = Some mesh" by blast
  from generate_Some(2,3) [OF this] assms
  show "ThetaResolution self < INT_MAX \<and> PhiResolution self < INT_MAX" by simp
next
  assume "ThetaResolution self < INT_MAX \<and> PhiResolution self < INT_MAX"
  then show "generate self \<noteq> None" by (simp add: generate_returns)
qed

lemma point_count_bounds_resolutions:
  assumes "4 \<le> ThetaResolution self" and "4 \<le> PhiResolution self"
    and "(PhiResolution self + 1) * (ThetaResolution self + 1) \<le> INT_MAX"
  shows "ThetaResolution self < INT_MAX \<and> PhiResolution self < INT_MAX"
proof -
  let ?P = "PhiResolution self" and ?T = "ThetaResolution self"
  have "0 \<le> ?P * ?T" using assms(1,2) by simp
  moreover have "(?P + 1) * (?T + 1) = ?P * ?T + ?P + ?T + 1" by (simp add: algebra_simps)
  ultimately show ?thesis using assms by linarith
qed

subsection \<open>Properties of a returned mesh\<close>

lemma generate_array_lengths_mesh:
  assumes "4 \<le> ThetaResolution self" and "4 \<le> PhiResolution self"
    and "generate self = Some mesh"
  shows "int (length (Points mesh)) = (PhiResolution self + 1) * (ThetaResolution self + 1)
       \<and> int (length (Normals mesh)) = (PhiResolution self + 1) * (ThetaResolution self + 1)
       \<and> int (length (TCoords mesh)) = (PhiResolution self + 1) * (ThetaResolution self + 1)
       \<and> int (length (Polys mesh)) = 2 * PhiResolution self * ThetaResolution self"
  using assms(1,2)
  by (simp add: generate_Some(1) [OF assms(3)] length_Points_run_loops length_Normals_run_loops
      length_TCoords_run_loops length_Polys_run_loops nat_mult_distrib [symmetric])

lemma point_at_grid_position_mesh:
  assumes "4 \<le> ThetaResolution self" and "4 \<le> PhiResolution self"
    and "0 \<le> i" and "i \<le> ThetaResolution self"
    and "0 \<le> j" and "j \<le> PhiResolution self"
    and "generate self = Some mesh"
  shows "Points mesh ! nat ((PhiResolution self + 1) * i + j) =
           (let theta = of_int i * 2 * pi / of_int (ThetaResolution self);
                phi = of_int j * pi / of_int (PhiResolution self)
            in (Finite (Radius self * sin phi * cos theta),
                Finite (Radius self * sin phi * sin theta),
                Finite (Radius self * cos phi)))"
proof -
  have "Points (run_loops self) ! nat ((PhiResolution self + 1) * i + j) =
          fin3 (sphere_point self (of_int i * (2 * pi / of_int (ThetaResolution self)))
                                   (of_int j * (pi / of_int (PhiResolution self))))"
    using assms(1,2) by (intro nth_Points_finite assms(3-6)) simp_all
  then show ?thesis
    by (simp add: generate_Some(1) [OF assms(7)] sphere_point_def fin3_def Let_def mult.assoc)
qed

lemma quad_cell_triangles_mesh:
  assumes "4 \<le> ThetaResolution self" and "4 \<le> PhiResolution self"
    and "(PhiResolution self + 1) * (ThetaResolution self + 1) \<le> INT_MAX"
    and "0 \<le> i" and "i < ThetaResolution self"
    and "0 \<le> j" and "j < PhiResolution self"
    and "generate self = Some mesh"
  shows "(let base = (PhiResolution self + 1) * i + j;
              k = nat (2 * (PhiResolution self * i + j))
          in Polys mesh ! k = (base, base + 1, base + PhiResolution self + 2)
           \<and> Polys mesh ! (k + 1) =
               (base, base + PhiResolution self + 2, base + PhiResolution self + 1)
           \<and> k + 1 < length (Polys mesh))
       \<and> int (length (Polys mesh)) = 2 * (PhiResolution self * ThetaResolution self)"
proof -
  let ?P = "PhiResolution self" and ?T = "ThetaResolution self"
  let ?k = "nat (2 * (?P * i + j))"
  let ?base = "(?P + 1) * i + j"
  have mesh: "mesh = run_loops self" using assms(8) by (rule generate_Some)
  have a: "Polys mesh ! ?k = cell_A self i j"
    unfolding mesh using assms(4-7) by (rule nth_Polys_run_loops)
  have b: "Polys mesh ! (?k + 1) = cell_B self i j"
    unfolding mesh using assms(4-7) by (rule nth_Polys_run_loops)
  have A: "cell_A self i j = (?base, ?base + 1, ?base + ?P + 2)"
    using assms(3-7) by (rule cells_exact)
  have B: "cell_B self i j = (?base, ?base + ?P + 2, ?base + ?P + 1)"
    using assms(3-7) by (rule cells_exact)
  have len: "int (length (Polys mesh)) = 2 * (?P * ?T)"
    using assms(1,2) by (simp add: mesh length_Polys_run_loops nat_mult_distrib [symmetric])
  have "?P * i \<le> ?P * (?T - 1)"
    using assms by (intro mult_left_mono) simp_all
  then have "2 * (?P * i + j) + 1 < 2 * (?P * ?T)"
    using assms(7) by (simp add: algebra_simps)
  then have "int (?k + 1) < int (length (Polys mesh))"
    using assms(2,4,6) len by simp
  then have "?k + 1 < length (Polys mesh)" by linarith
  with a b len show ?thesis
    by (simp only: A B Let_def)
qed

lemma normals_are_points_over_norm_mesh:
  assumes "4 \<le> ThetaResolution self" and "4 \<le> PhiResolution self"
    and "0 \<le> i" and "i \<le> ThetaResolution self"
    and "0 \<le> j" and "j \<le> PhiResolution self"
    and "generate self = Some mesh"
  shows "(let p = Points mesh ! nat ((PhiResolution self + 1) * i + j);
              n = Normals mesh ! nat ((PhiResolution self + 1) * i + j);
              d = (if Norm p = Finite 0 then Finite 1 else Norm p)
          in n = (ddiv (fst p) d, ddiv (fst (snd p)) d, ddiv (snd (snd p)) d)
           \<and> (\<forall>r. Norm p = Finite r \<and> r \<noteq> 0 \<longrightarrow> Norm n = Finite 1)
           \<and> (j = 0 \<longrightarrow> p = (Finite 0, Finite 0, Finite (Radius self))))"
proof -
  let ?k = "nat ((PhiResolution self + 1) * i + j)"
  let ?p = "Points mesh ! ?k" and ?n = "Normals mesh ! ?k"
  let ?theta = "of_int i * (2 * pi / of_int (ThetaResolution self))"
  let ?phi = "of_int j * (pi / of_int (PhiResolution self))"
  have mesh: "mesh = run_loops self" using assms(7) by (rule generate_Some)
  have nz: "ThetaResolution self \<noteq> 0" "PhiResolution self \<noteq> 0" using assms(1,2) by simp_all
  have p: "?p = fin3 (sphere_point self ?theta ?phi)"
    unfolding mesh using nz assms(3-6) by (rule nth_Points_finite)
  have n: "?n = vertex_normal ?p"
    unfolding mesh using nz assms(3-6) by (rule nth_Normals_finite)
  have n_div: "?n = (ddiv (fst ?p) (if Norm ?p = Finite 0 then Finite 1 else Norm ?p),
                     ddiv (fst (snd ?p)) (if Norm ?p = Finite 0 then Finite 1 else Norm ?p),
                     ddiv (snd (snd ?p)) (if Norm ?p = Finite 0 then Finite 1 else Norm ?p))"
    by (subst n) (simp only: vertex_normal_def Let_def)
  obtain a b c where abc: "?p = (Finite a, Finite b, Finite c)"
    using p by (simp add: fin3_def)
  have unit: "Norm ?n = Finite 1" if "Norm ?p = Finite r" "r \<noteq> 0" for r
    using that Norm_vertex_normal [of a b c r] by (simp add: n abc)
  have pole: "j = 0 \<longrightarrow> ?p = (Finite 0, Finite 0, Finite (Radius self))"
    using p by (auto simp: fin3_def sphere_point_def)
  show ?thesis
    unfolding Let_def
  proof (intro conjI allI impI)
    show "?n = (ddiv (fst ?p) (if Norm ?p = Finite 0 then Finite 1 else Norm ?p),
                ddiv (fst (snd ?p)) (if Norm ?p = Finite 0 then Finite 1 else Norm ?p),
                ddiv (snd (snd ?p)) (if Norm ?p = Finite 0 then Finite 1 else Norm ?p))"
      by (rule n_div)
    show "Norm ?n = Finite 1" if "Norm ?p = Finite r \<and> r \<noteq> 0" for r
      using that unit by blast
    show "?p = (Finite 0, Finite 0, Finite (Radius self))" if "j = 0"
      using that pole by blast
  qed
qed

lemma tcoord_at_grid_position_mesh:
  assumes "4 \<le> ThetaResolution self" and "4 \<le> PhiResolution self"
    and "0 \<le> i" and "i \<le> ThetaResolution self"
    and "0 \<le> j" and "j \<le> PhiResolution self"
    and "generate self = Some mesh"
  shows "TCoords mesh ! nat ((PhiResolution self + 1) * i + j) =
           (let theta = of_int i * 2 * pi / of_int (ThetaResolution self);
                phi = of_int j * pi / of_int (PhiResolution self)
            in (Finite (theta / (2 * pi)), Finite (1 - phi / pi)))
       \<and> (j = 0 \<longrightarrow> snd (TCoords mesh ! nat ((PhiResolution self + 1) * i + j)) = Finite 1)
       \<and> (j = PhiResolution self \<longrightarrow>
            snd (TCoords mesh ! nat ((PhiResolution self + 1) * i + j)) = Finite 0)"
proof -
  have "TCoords (run_loops self) ! nat ((PhiResolution self + 1) * i + j) =
           (Finite (of_int i * (2 * pi / of_int (ThetaResolution self)) / (2 * pi)),
            Finite (1 - of_int j * (pi / of_int (PhiResolution self)) / pi))"
    using assms(1,2) by (intro nth_TCoords_finite assms(3-6)) simp_all
  then show ?thesis
    using assms(2) by (auto simp: generate_Some(1) [OF assms(7)] Let_def mult.assoc)
qed

lemma u_increasing_in_closed_interval_mesh:
  assumes "4 \<le> ThetaResolution self" and "4 \<le> PhiResolution self"
    and "0 \<le> i" and "i \<le> ThetaResolution self"
    and "0 \<le> j" and "j \<le> PhiResolution self"
    and "generate self = Some mesh"
  shows "(let u = fst (TCoords mesh ! nat ((PhiResolution self + 1) * i + j))
          in u = Finite (of_int i / of_int (ThetaResolution self))
           \<and> dle (Finite 0) u \<and> dle u (Finite 1)
           \<and> (u = Finite 1 \<longleftrightarrow> i = ThetaResolution self)
           \<and> (\<forall>i' j'. i < i' \<longrightarrow> i' \<le> ThetaResolution self \<longrightarrow> 0 \<le> j' \<longrightarrow> j' \<le> PhiResolution self \<longrightarrow>
                 dless u (fst (TCoords mesh ! nat ((PhiResolution self + 1) * i' + j')))))"
proof -
  let ?T = "ThetaResolution self"
  have mesh: "mesh = run_loops self" using assms(7) by (rule generate_Some)
  have nz: "ThetaResolution self \<noteq> 0" "PhiResolution self \<noteq> 0" using assms(1,2) by simp_all
  have T: "0 < (of_int ?T :: real)" using assms(1) by simp
  have u: "fst (TCoords mesh ! nat ((PhiResolution self + 1) * i' + j')) =
             Finite (of_int i' / of_int ?T)"
    if "0 \<le> i'" "i' \<le> ?T" "0 \<le> j'" "j' \<le> PhiResolution self" for i' j'
    unfolding mesh using nth_TCoords_finite [OF nz that] T by simp
  have u0: "fst (TCoords mesh ! nat ((PhiResolution self + 1) * i + j)) =
              Finite (of_int i / of_int ?T)"
    using assms(3-6) by (rule u)
  have range: "dle (Finite 0) (Finite (of_int i / of_int ?T))"
    "dle (Finite (of_int i / of_int ?T)) (Finite 1)"
    using T assms(3,4) by simp_all
  have one: "Finite ((of_int i :: real) / of_int ?T) = Finite 1 \<longleftrightarrow> i = ?T"
    using T by auto
  have mono: "dless (Finite (of_int i / of_int ?T))
                (fst (TCoords mesh ! nat ((PhiResolution self + 1) * i' + j')))"
    if "i < i'" "i' \<le> ?T" "0 \<le> j'" "j' \<le> PhiResolution self" for i' j'
  proof -
    have "0 \<le> i'" using that(1) assms(3) by simp
    then have "fst (TCoords mesh ! nat ((PhiResolution self + 1) * i' + j')) =
                 Finite (of_int i' / of_int ?T)"
      using that by (intro u)
    moreover have "(of_int i :: real) / of_int ?T < of_int i' / of_int ?T"
      using T that(1) by (simp add: divide_strict_right_mono)
    ultimately show ?thesis by simp
  qed
  from u0 range one mono show ?thesis
    by (simp only: Let_def) blast
qed

lemma triangle_ids_reference_points_mesh:
  assumes "4 \<le> ThetaResolution self" and "4 \<le> PhiResolution self"
    and "(PhiResolution self + 1) * (ThetaResolution self + 1) \<le> INT_MAX"
    and "generate self = Some mesh"
  shows "(\<forall>k \<in> set (poly_ids mesh).
            0 \<le> k \<and> k < (PhiResolution self + 1) * (ThetaResolution self + 1)
              \<and> nat k < length (Points mesh))
       \<and> Max (set (poly_ids mesh)) =
            (PhiResolution self + 1) * (ThetaResolution self + 1) - 1"
proof -
  let ?N = "(PhiResolution self + 1) * (ThetaResolution self + 1)"
  have mesh: "mesh = run_loops self" using assms(4) by (rule generate_Some)
  have len: "int (length (Points mesh)) = ?N"
    using assms(1,2) by (simp add: mesh length_Points_run_loops nat_mult_distrib [symmetric]
        mult.commute)
  have bounded: "0 \<le> k \<and> k < ?N \<and> nat k < length (Points mesh)"
    if "k \<in> set (poly_ids mesh)" for k
  proof -
    from that have "0 \<le> k \<and> k < ?N"
      unfolding mesh using assms(3) by (intro poly_ids_bounded)
    with len show ?thesis by linarith
  qed
  have last: "?N - 1 \<in> set (poly_ids mesh)"
    unfolding mesh using assms(1-3) by (intro last_point_id_used) simp_all
  have "Max (set (poly_ids mesh)) = ?N - 1"
  proof (rule Max_eqI)
    show "finite (set (poly_ids mesh))" by simp
    show "y \<le> ?N - 1" if "y \<in> set (poly_ids mesh)" for y
      using bounded [OF that] by simp
    show "?N - 1 \<in> set (poly_ids mesh)" by (rule last)
  qed
  with bounded show ?thesis by simp
qed

section \<open>The claims\<close>

text \<open>
  Claim C1. For every source with \<open>ThetaResolution \<ge> 4\<close> and \<open>PhiResolution \<ge> 4\<close>,
  the points, normals and texture coordinates of the mesh that \<open>generate\<close> returns all
  have \<open>(PhiResolution + 1) * (ThetaResolution + 1)\<close> entries, and there are
  \<open>2 * PhiResolution * ThetaResolution\<close> triangles. The call returns exactly when both
  resolutions are less than \<open>INT_MAX\<close>.
\<close>

theorem generate_array_lengths:
  assumes "4 \<le> ThetaResolution self" and "4 \<le> PhiResolution self"
  shows "(generate self \<noteq> None \<longleftrightarrow>
            ThetaResolution self < INT_MAX \<and> PhiResolution self < INT_MAX)
       \<and> (\<forall>mesh. generate self = Some mesh \<longrightarrow>
           (int (length (Points mesh)) = (PhiResolution self + 1) * (ThetaResolution self + 1)
           \<and> int (length (Normals mesh)) = (PhiResolution self + 1) * (ThetaResolution self + 1)
           \<and> int (length (TCoords mesh)) = (PhiResolution self + 1) * (ThetaResolution self + 1)
           \<and> int (length (Polys mesh)) = 2 * PhiResolution self * ThetaResolution self))"
  using generate_returns_iff [OF assms(1,2)] generate_array_lengths_mesh [OF assms] by blast

theorem generate_array_lengths_witness:
  "generate unit_sphere_4 \<noteq> None
     \<and> length (Points (the (generate unit_sphere_4))) = 25
     \<and> length (Normals (the (generate unit_sphere_4))) = 25
     \<and> length (TCoords (the (generate unit_sphere_4))) = 25
     \<and> length (Polys (the (generate unit_sphere_4))) = 32"
proof -
  let ?m = "the (generate unit_sphere_4)"
  have "4 \<le> ThetaResolution unit_sphere_4" "4 \<le> PhiResolution unit_sphere_4"
    by (simp_all add: unit_sphere_4_simps)
  note inst = generate_array_lengths [OF this]
  from inst have ret: "generate unit_sphere_4 \<noteq> None"
    by (simp add: unit_sphere_4_simps)
  then have "generate unit_sphere_4 = Some ?m" by auto
  with inst have "int (length (Points ?m)) = (PhiResolution unit_sphere_4 + 1) * (ThetaResolution unit_sphere_4 + 1)
       \<and> int (length (Normals ?m)) = (PhiResolution unit_sphere_4 + 1) * (ThetaResolution unit_sphere_4 + 1)
       \<and> int (length (TCoords ?m)) = (PhiResolution unit_sphere_4 + 1) * (ThetaResolution unit_sphere_4 + 1)
       \<and> int (length (Polys ?m)) = 2 * PhiResolution unit_sphere_4 * ThetaResolution unit_sphere_4"
    by blast
  with ret show ?thesis by (simp add: unit_sphere_4_simps)
qed

text \<open>
  Claim C2. For every valid source, longitude index \<open>i\<close> in \<open>[0, ThetaResolution]\<close> and
  latitude index \<open>j\<close> in \<open>[0, PhiResolution]\<close>, the point stored at position
  \<open>(PhiResolution + 1) * i + j\<close> of the returned mesh is
  \<open>(Radius * sin phi * cos theta, Radius * sin phi * sin theta, Radius * cos phi)\<close> with
  \<open>theta = i * 2 * pi / ThetaResolution\<close> and \<open>phi = j * pi / PhiResolution\<close>. The
  call returns exactly when both resolutions are less than \<open>INT_MAX\<close>.
\<close>

theorem point_at_grid_position:
  assumes "4 \<le> ThetaResolution self" and "4 \<le> PhiResolution self"
    and "0 \<le> i" and "i \<le> ThetaResolution self"
    and "0 \<le> j" and "j \<le> PhiResolution self"
  shows "(generate self \<noteq> None \<longleftrightarrow>
            ThetaResolution self < INT_MAX \<and> PhiResolution self < INT_MAX)
       \<and> (\<forall>mesh. generate self = Some mesh \<longrightarrow>
           (Points mesh ! nat ((PhiResolution self + 1) * i + j) =
               (let theta = of_int i * 2 * pi / of_int (ThetaResolution self);
                    phi = of_int j * pi / of_int (PhiResolution self)
                in (Finite (Radius self * sin phi * cos theta),
                    Finite (Radius self * sin phi * sin theta),
                    Finite (Radius self * cos phi)))))"
  using generate_returns_iff [OF assms(1,2)] point_at_grid_position_mesh [OF assms] by blast

theorem point_at_grid_position_witness:
  "generate unit_sphere_4 \<noteq> None
     \<and> Points (the (generate unit_sphere_4)) ! 7 = (Finite 0, Finite 1, Finite 0)"
proof -
  let ?m = "the (generate unit_sphere_4)"
  have "4 \<le> ThetaResolution unit_sphere_4" "4 \<le> PhiResolution unit_sphere_4"
    "(0::int) \<le> 1" "1 \<le> ThetaResolution unit_sphere_4" "(0::int) \<le> 2" "2 \<le> PhiResolution unit_sphere_4"
    by (simp_all add: unit_sphere_4_simps)
  note inst = point_at_grid_position [OF this]
  from inst have ret: "generate unit_sphere_4 \<noteq> None"
    by (simp add: unit_sphere_4_simps)
  then have "generate unit_sphere_4 = Some ?m" by auto
  with inst have "Points ?m ! nat ((PhiResolution unit_sphere_4 + 1) * 1 + 2) =
           (let theta = of_int 1 * 2 * pi / of_int (ThetaResolution unit_sphere_4);
                phi = of_int 2 * pi / of_int (PhiResolution unit_sphere_4)
            in (Finite (Radius unit_sphere_4 * sin phi * cos theta),
                Finite (Radius unit_sphere_4 * sin phi * sin theta),
                Finite (Radius unit_sphere_4 * cos phi)))"
    by blast
  with ret show ?thesis by (simp add: unit_sphere_4_simps)
qed

text \<open>
  Claim C3, as amended. For every valid source whose number of points
  \<open>(PhiResolution + 1) * (ThetaResolution + 1)\<close> is at most \<open>INT_MAX\<close>, and every quad
  cell \<open>(i, j)\<close> with \<open>i\<close> in \<open>[0, ThetaResolution)\<close> and \<open>j\<close> in
  \<open>[0, PhiResolution)\<close>, the call returns and exactly two triangles are emitted, at positions
  \<open>2 * (PhiResolution * i + j)\<close> and the next one of the cell array, which holds
  \<open>2 * PhiResolution * ThetaResolution\<close> cells in all. With
  \<open>base = (PhiResolution + 1) * i + j\<close> the first is
  \<open>(base, base + 1, base + PhiResolution + 2)\<close> and the second is
  \<open>(base, base + PhiResolution + 2, base + PhiResolution + 1)\<close>: it keeps the first and
  the last id of the first triangle, not its last two. The claim as written fails at the
  cell \<open>(0, 0)\<close> of the sphere with both resolutions 4, whose second triangle
  \<open>(0, 6, 5)\<close> does not hold the id 1; and at the last cell of the sphere with both
  resolutions 46340, where the \<^verbatim>\<open>int\<close> expression of line 156 wraps around to a
  negative id.
\<close>

theorem quad_cell_triangles:
  assumes "4 \<le> ThetaResolution self" and "4 \<le> PhiResolution self"
    and "(PhiResolution self + 1) * (ThetaResolution self + 1) \<le> INT_MAX"
    and "0 \<le> i" and "i < ThetaResolution self"
    and "0 \<le> j" and "j < PhiResolution self"
  shows "generate self \<noteq> None
       \<and> (\<forall>mesh. generate self = Some mesh \<longrightarrow>
           ((let base = (PhiResolution self + 1) * i + j;
                  k = nat (2 * (PhiResolution self * i + j))
              in Polys mesh ! k = (base, base + 1, base + PhiResolution self + 2)
               \<and> Polys mesh ! (k + 1) =
                   (base, base + PhiResolution self + 2, base + PhiResolution self + 1)
               \<and> k + 1 < length (Polys mesh))
           \<and> int (length (Polys mesh)) = 2 * (PhiResolution self * ThetaResolution self)))"
proof -
  have "ThetaResolution self < INT_MAX \<and> PhiResolution self < INT_MAX"
    using assms(1-3) by (rule point_count_bounds_resolutions)
  then have "generate self \<noteq> None"
    by (simp add: generate_returns)
  then show ?thesis
    using quad_cell_triangles_mesh [OF assms] by blast
qed

theorem quad_cell_triangles_witness:
  "generate unit_sphere_4 \<noteq> None
     \<and> Polys (the (generate unit_sphere_4)) ! 14 = (8, 9, 14)
     \<and> Polys (the (generate unit_sphere_4)) ! 15 = (8, 14, 13)
     \<and> length (Polys (the (generate unit_sphere_4))) = 32"
proof -
  let ?m = "the (generate unit_sphere_4)"
  have "4 \<le> ThetaResolution unit_sphere_4" "4 \<le> PhiResolution unit_sphere_4"
    "(PhiResolution unit_sphere_4 + 1) * (ThetaResolution unit_sphere_4 + 1) \<le> INT_MAX"
    "(0::int) \<le> 1" "1 < ThetaResolution unit_sphere_4" "(0::int) \<le> 3" "3 < PhiResolution unit_sphere_4"
    by (simp_all add: unit_sphere_4_simps)
  note inst = quad_cell_triangles [OF this]
  from inst have ret: "generate unit_sphere_4 \<noteq> None" by blast
  then have "generate unit_sphere_4 = Some ?m" by auto
  with inst have "(let base = (PhiResolution unit_sphere_4 + 1) * 1 + 3;
              k = nat (2 * (PhiResolution unit_sphere_4 * 1 + 3))
          in Polys ?m ! k = (base, base + 1, base + PhiResolution unit_sphere_4 + 2)
           \<and> Polys ?m ! (k + 1) =
               (base, base + PhiResolution unit_sphere_4 + 2, base + PhiResolution unit_sphere_4 + 1)
           \<and> k + 1 < length (Polys ?m))
       \<and> int (length (Polys ?m)) = 2 * (PhiResolution unit_sphere_4 * ThetaResolution unit_sphere_4)"
    by blast
  with ret show ?thesis by (simp add: unit_sphere_4_simps Let_def)
qed

theorem quad_cell_second_triangle_counterexample:
  "generate unit_sphere_4 \<noteq> None
     \<and> Polys (the (generate unit_sphere_4)) ! 0 = (0, 1, 6)
     \<and> Polys (the (generate unit_sphere_4)) ! 1 = (0, 6, 5)
     \<and> 1 \<notin> set (cell_ids (Polys (the (generate unit_sphere_4)) ! 1))
     \<and> generate sphere_46340 \<noteq> None
     \<and> Polys (the (generate sphere_46340)) ! nat (2 * (46340 * 46339 + 46339)) =
         (2147441938, 2147441939, - 2147479016)"
proof -
  have "generate unit_sphere_4 \<noteq> None" "generate sphere_46340 \<noteq> None"
    by (simp_all add: unit_sphere_4_returns sphere_46340_returns)
  moreover have "Polys (the (generate unit_sphere_4)) ! 0 = (0, 1, 6)"
    "Polys (the (generate unit_sphere_4)) ! 1 = (0, 6, 5)"
    "1 \<notin> set (cell_ids (Polys (the (generate unit_sphere_4)) ! 1))"
    by (simp_all add: unit_sphere_4_cells_the cell_ids_def)
  ultimately show ?thesis
    using sphere_46340_last_cell by blast
qed

text \<open>
  Claim C4, as amended. For every valid source, every stored normal, on the row
  \<open>phi = 0\<close> as on every other, is the point stored at the same position divided by its
  norm, the divisor being replaced by 1 exactly when the norm compares equal to 0; so
  the normal has unit length whenever the norm of the point is a number other than 0. On
  the row \<open>phi = 0\<close> the point is \<open>(0, 0, Radius)\<close>. The call returns exactly when
  both resolutions are less than \<open>INT_MAX\<close>. The claim as written fails at
  position 0 of the unit sphere with both resolutions 4: the normal there is
  \<open>(0, 0, 1)\<close>, not the zero vector.
\<close>

theorem normals_are_points_over_norm:
  assumes "4 \<le> ThetaResolution self" and "4 \<le> PhiResolution self"
    and "0 \<le> i" and "i \<le> ThetaResolution self"
    and "0 \<le> j" and "j \<le> PhiResolution self"
  shows "(generate self \<noteq> None \<longleftrightarrow>
            ThetaResolution self < INT_MAX \<and> PhiResolution self < INT_MAX)
       \<and> (\<forall>mesh. generate self = Some mesh \<longrightarrow>
           ((let p = Points mesh ! nat ((PhiResolution self + 1) * i + j);
                  n = Normals mesh ! nat ((PhiResolution self + 1) * i + j);
                  d = (if Norm p = Finite 0 then Finite 1 else Norm p)
              in n = (ddiv (fst p) d, ddiv (fst (snd p)) d, ddiv (snd (snd p)) d)
               \<and> (\<forall>r. Norm p = Finite r \<and> r \<noteq> 0 \<longrightarrow> Norm n = Finite 1)
               \<and> (j = 0 \<longrightarrow> p = (Finite 0, Finite 0, Finite (Radius self))))))"
  using generate_returns_iff [OF assms(1,2)] normals_are_points_over_norm_mesh [OF assms] by blast

theorem normals_are_points_over_norm_witness:
  "generate unit_sphere_4 \<noteq> None
     \<and> Points (the (generate unit_sphere_4)) ! 0 = (Finite 0, Finite 0, Finite 1)
     \<and> Normals (the (generate unit_sphere_4)) ! 0 = (Finite 0, Finite 0, Finite 1)
     \<and> Norm (Normals (the (generate unit_sphere_4)) ! 0) = Finite 1"
proof -
  let ?m = "the (generate unit_sphere_4)"
  let ?k = "nat ((PhiResolution unit_sphere_4 + 1) * 0 + 0)"
  let ?p = "Points ?m ! ?k" and ?n = "Normals ?m ! ?k"
  have k: "?k = 0" by simp
  have "4 \<le> ThetaResolution unit_sphere_4" "4 \<le> PhiResolution unit_sphere_4"
    "(0::int) \<le> 0" "0 \<le> ThetaResolution unit_sphere_4" "(0::int) \<le> 0" "0 \<le> PhiResolution unit_sphere_4"
    by (simp_all add: unit_sphere_4_simps)
  note inst = normals_are_points_over_norm [OF this]
  from inst have ret: "generate unit_sphere_4 \<noteq> None"
    by (simp add: unit_sphere_4_simps)
  then have "generate unit_sphere_4 = Some ?m" by auto
  with inst have all: "(let p = ?p; n = ?n;
              d = (if Norm p = Finite 0 then Finite 1 else Norm p)
          in n = (ddiv (fst p) d, ddiv (fst (snd p)) d, ddiv (snd (snd p)) d)
           \<and> (\<forall>r. Norm p = Finite r \<and> r \<noteq> 0 \<longrightarrow> Norm n = Finite 1)
           \<and> ((0::int) = 0 \<longrightarrow> p = (Finite 0, Finite 0, Finite (Radius unit_sphere_4))))"
    by blast
  then have n: "?n = (ddiv (fst ?p) (if Norm ?p = Finite 0 then Finite 1 else Norm ?p),
                      ddiv (fst (snd ?p)) (if Norm ?p = Finite 0 then Finite 1 else Norm ?p),
                      ddiv (snd (snd ?p)) (if Norm ?p = Finite 0 then Finite 1 else Norm ?p))"
    and unit: "\<forall>r. Norm ?p = Finite r \<and> r \<noteq> 0 \<longrightarrow> Norm ?n = Finite 1"
    and pole: "?p = (Finite 0, Finite 0, Finite (Radius unit_sphere_4))"
    unfolding Let_def by blast+
  note n = n [unfolded k] and unit = unit [unfolded k] and pole = pole [unfolded k]
  have p: "Points ?m ! 0 = (Finite 0, Finite 0, Finite 1)"
    using pole by (simp only: unit_sphere_4_simps)
  have norm_p: "Norm (Points ?m ! 0) = Finite 1"
    by (subst p) (simp add: Norm_finite)
  have n0: "Normals ?m ! 0 = (Finite 0, Finite 0, Finite 1)"
    by (subst n) (simp add: p Norm_finite)
  from unit norm_p have "Norm (Normals ?m ! 0) = Finite 1" by simp
  with ret p n0 show ?thesis by blast
qed

theorem north_pole_normal_counterexample:
  "generate unit_sphere_4 \<noteq> None
     \<and> Points (the (generate unit_sphere_4)) ! 0 = (Finite 0, Finite 0, Finite 1)
     \<and> Normals (the (generate unit_sphere_4)) ! 0 = (Finite 0, Finite 0, Finite 1)
     \<and> Normals (the (generate unit_sphere_4)) ! 0 \<noteq> (Finite 0, Finite 0, Finite 0)"
  by (simp add: unit_sphere_4_vertices_the) (simp add: unit_sphere_4_returns)

text \<open>
  Claim C5. For every valid source and every vertex \<open>(i, j)\<close>, the stored texture
  coordinate is \<open>(theta / (2 * pi), 1 - phi / pi)\<close>; its second component is 1 on the
  row \<open>phi = 0\<close> (\<open>j = 0\<close>) and 0 on the row \<open>phi = pi\<close> (\<open>j = PhiResolution\<close>).
  The call returns exactly when both resolutions are less than \<open>INT_MAX\<close>.
\<close>

theorem tcoord_at_grid_position:
  assumes "4 \<le> ThetaResolution self" and "4 \<le> PhiResolution self"
    and "0 \<le> i" and "i \<le> ThetaResolution self"
    and "0 \<le> j" and "j \<le> PhiResolution self"
  shows "(generate self \<noteq> None \<longleftrightarrow>
            ThetaResolution self < INT_MAX \<and> PhiResolution self < INT_MAX)
       \<and> (\<forall>mesh. generate self = Some mesh \<longrightarrow>
           (TCoords mesh ! nat ((PhiResolution self + 1) * i + j) =
               (let theta = of_int i * 2 * pi / of_int (ThetaResolution self);
                    phi = of_int j * pi / of_int (PhiResolution self)
                in (Finite (theta / (2 * pi)), Finite (1 - phi / pi)))
           \<and> (j = 0 \<longrightarrow> snd (TCoords mesh ! nat ((PhiResolution self + 1) * i + j)) = Finite 1)
           \<and> (j = PhiResolution self \<longrightarrow>
                snd (TCoords mesh ! nat ((PhiResolution self + 1) * i + j)) = Finite 0)))"
  using generate_returns_iff [OF assms(1,2)] tcoord_at_grid_position_mesh [OF assms] by blast

theorem tcoord_at_grid_position_witness:
  "generate unit_sphere_4 \<noteq> None
     \<and> TCoords (the (generate unit_sphere_4)) ! 5 = (Finite (1 / 4), Finite 1)
     \<and> TCoords (the (generate unit_sphere_4)) ! 9 = (Finite (1 / 4), Finite 0)"
proof -
  let ?m = "the (generate unit_sphere_4)"
  have a: "4 \<le> ThetaResolution unit_sphere_4" "4 \<le> PhiResolution unit_sphere_4"
    "(0::int) \<le> 1" "1 \<le> ThetaResolution unit_sphere_4" "(0::int) \<le> 0" "0 \<le> PhiResolution unit_sphere_4"
    and b: "4 \<le> ThetaResolution unit_sphere_4" "4 \<le> PhiResolution unit_sphere_4"
    "(0::int) \<le> 1" "1 \<le> ThetaResolution unit_sphere_4" "(0::int) \<le> 4" "4 \<le> PhiResolution unit_sphere_4"
    by (simp_all add: unit_sphere_4_simps)
  note inst0 = tcoord_at_grid_position [OF a] and inst4 = tcoord_at_grid_position [OF b]
  from inst0 have ret: "generate unit_sphere_4 \<noteq> None"
    by (simp add: unit_sphere_4_simps)
  then have m: "generate unit_sphere_4 = Some ?m" by auto
  from inst0 m have "TCoords ?m ! nat ((PhiResolution unit_sphere_4 + 1) * 1 + 0) =
           (let theta = of_int 1 * 2 * pi / of_int (ThetaResolution unit_sphere_4);
                phi = of_int 0 * pi / of_int (PhiResolution unit_sphere_4)
            in (Finite (theta / (2 * pi)), Finite (1 - phi / pi)))"
    by blast
  moreover from inst4 m have "TCoords ?m ! nat ((PhiResolution unit_sphere_4 + 1) * 1 + 4) =
           (let theta = of_int 1 * 2 * pi / of_int (ThetaResolution unit_sphere_4);
                phi = of_int 4 * pi / of_int (PhiResolution unit_sphere_4)
            in (Finite (theta / (2 * pi)), Finite (1 - phi / pi)))"
    by blast
  ultimately show ?thesis using ret by (simp add: unit_sphere_4_simps)
qed

text \<open>
  Claim C6, as amended. For every valid source, the first texture coordinate of the
  vertex \<open>(i, j)\<close> is \<open>i / ThetaResolution\<close>: it is strictly increasing in the
  longitude index and lies in the closed interval \<open>[0, 1]\<close>, and it is 1 exactly on the
  seam column \<open>i = ThetaResolution\<close>. The call returns exactly when both resolutions
  are less than \<open>INT_MAX\<close>. The claim as written, with the half-open interval,
  fails at position 20 (\<open>i = 4\<close>, \<open>j = 0\<close>) of the sphere with both resolutions 4.
\<close>

theorem u_increasing_in_closed_interval:
  assumes "4 \<le> ThetaResolution self" and "4 \<le> PhiResolution self"
    and "0 \<le> i" and "i \<le> ThetaResolution self"
    and "0 \<le> j" and "j \<le> PhiResolution self"
  shows "(generate self \<noteq> None \<longleftrightarrow>
            ThetaResolution self < INT_MAX \<and> PhiResolution self < INT_MAX)
       \<and> (\<forall>mesh. generate self = Some mesh \<longrightarrow>
           ((let u = fst (TCoords mesh ! nat ((PhiResolution self + 1) * i + j))
              in u = Finite (of_int i / of_int (ThetaResolution self))
               \<and> dle (Finite 0) u \<and> dle u (Finite 1)
               \<and> (u = Finite 1 \<longleftrightarrow> i = ThetaResolution self)
               \<and> (\<forall>i' j'. i < i' \<longrightarrow> i' \<le> ThetaResolution self \<longrightarrow> 0 \<le> j' \<longrightarrow> j' \<le> PhiResolution self \<longrightarrow>
                     dless u (fst (TCoords mesh ! nat ((PhiResolution self + 1) * i' + j')))))))"
  using generate_returns_iff [OF assms(1,2)] u_increasing_in_closed_interval_mesh [OF assms] by blast

theorem u_increasing_in_closed_interval_witness:
  "generate unit_sphere_4 \<noteq> None
     \<and> fst (TCoords (the (generate unit_sphere_4)) ! 15) = Finite (3 / 4)
     \<and> dless (fst (TCoords (the (generate unit_sphere_4)) ! 15))
         (fst (TCoords (the (generate unit_sphere_4)) ! 20))"
proof -
  let ?m = "the (generate unit_sphere_4)"
  let ?u = "\<lambda>i j. fst (TCoords ?m ! nat ((PhiResolution unit_sphere_4 + 1) * i + j))"
  have "4 \<le> ThetaResolution unit_sphere_4" "4 \<le> PhiResolution unit_sphere_4"
    "(0::int) \<le> 3" "3 \<le> ThetaResolution unit_sphere_4" "(0::int) \<le> 0" "0 \<le> PhiResolution unit_sphere_4"
    by (simp_all add: unit_sphere_4_simps)
  note inst = u_increasing_in_closed_interval [OF this]
  from inst have ret: "generate unit_sphere_4 \<noteq> None"
    by (simp add: unit_sphere_4_simps)
  then have "generate unit_sphere_4 = Some ?m" by auto
  with inst have all: "(let u = ?u 3 0
          in u = Finite (of_int 3 / of_int (ThetaResolution unit_sphere_4))
           \<and> dle (Finite 0) u \<and> dle u (Finite 1)
           \<and> (u = Finite 1 \<longleftrightarrow> 3 = ThetaResolution unit_sphere_4)
           \<and> (\<forall>i' j'. 3 < i' \<longrightarrow> i' \<le> ThetaResolution unit_sphere_4 \<longrightarrow> 0 \<le> j' \<longrightarrow>
                 j' \<le> PhiResolution unit_sphere_4 \<longrightarrow> dless u (?u i' j')))"
    by blast
  then have eq: "?u 3 0 = Finite (of_int 3 / of_int (ThetaResolution unit_sphere_4))"
    and less: "\<forall>i' j'. 3 < i' \<longrightarrow> i' \<le> ThetaResolution unit_sphere_4 \<longrightarrow> 0 \<le> j' \<longrightarrow>
           j' \<le> PhiResolution unit_sphere_4 \<longrightarrow> dless (?u 3 0) (?u i' j')"
    unfolding Let_def by blast+
  from less have "(3::int) < 4 \<longrightarrow> 4 \<le> ThetaResolution unit_sphere_4 \<longrightarrow> (0::int) \<le> 0 \<longrightarrow>
           0 \<le> PhiResolution unit_sphere_4 \<longrightarrow> dless (?u 3 0) (?u 4 0)"
    by blast
  with eq have "?u 3 0 = Finite (3 / 4)" "dless (?u 3 0) (?u 4 0)"
    by (simp_all add: unit_sphere_4_simps)
  then have "fst (TCoords ?m ! 15) = Finite (3 / 4)"
    "dless (fst (TCoords ?m ! 15)) (fst (TCoords ?m ! 20))"
    by (simp_all add: unit_sphere_4_simps)
  with ret show ?thesis by blast
qed

theorem seam_u_counterexample:
  "generate unit_sphere_4 \<noteq> None
     \<and> fst (TCoords (the (generate unit_sphere_4)) ! 20) = Finite 1
     \<and> \<not> dless (fst (TCoords (the (generate unit_sphere_4)) ! 20)) (Finite 1)"
  by (simp add: unit_sphere_4_vertices_the) (simp add: unit_sphere_4_returns)

text \<open>
  Claim C7. With radius 1 and both resolutions 4, \<open>generate\<close> returns a mesh with 25
  points and 32 triangles; the vertex \<open>i = 0\<close>, \<open>j = 0\<close> is the point \<open>(0, 0, 1)\<close>
  with normal \<open>(0, 0, 1)\<close>, and the zero-norm substitution is not taken there, the norm
  of the point being the radius.
\<close>

theorem unit_sphere_scenario:
  assumes "Radius self = 1.0" and "ThetaResolution self = 4" and "PhiResolution self = 4"
  shows "generate self \<noteq> None
       \<and> length (Points (the (generate self))) = 25
       \<and> length (Polys (the (generate self))) = 32
       \<and> Points (the (generate self)) ! 0 = (Finite 0, Finite 0, Finite 1)
       \<and> Normals (the (generate self)) ! 0 = (Finite 0, Finite 0, Finite 1)
       \<and> Norm (Points (the (generate self)) ! 0) = Finite (Radius self)
       \<and> Norm (Points (the (generate self)) ! 0) \<noteq> Finite 0"
proof -
  have g: "generate self = Some (run_loops self)"
    by (rule generate_returns) (simp_all add: assms)
  have p: "Points (run_loops self) ! nat ((PhiResolution self + 1) * 0 + 0) =
             fin3 (sphere_point self (of_int 0 * (2 * pi / of_int (ThetaResolution self)))
                                      (of_int 0 * (pi / of_int (PhiResolution self))))"
    by (rule nth_Points_finite) (simp_all add: assms)
  have n: "Normals (run_loops self) ! nat ((PhiResolution self + 1) * 0 + 0) =
             vertex_normal (Points (run_loops self) ! nat ((PhiResolution self + 1) * 0 + 0))"
    by (rule nth_Normals_finite) (simp_all add: assms)
  have p0: "Points (run_loops self) ! 0 = (Finite 0, Finite 0, Finite 1)"
    using p by (simp add: sphere_point_def fin3_def assms)
  have n0: "Normals (run_loops self) ! 0 = (Finite 0, Finite 0, Finite 1)"
    using n by (simp add: p0 vertex_normal_finite)
  have "Norm (Points (run_loops self) ! 0) = Finite 1"
    by (simp add: p0 Norm_finite)
  with p0 n0 show ?thesis
    by (simp add: g length_Points_run_loops length_Polys_run_loops assms)
qed

theorem unit_sphere_scenario_witness:
  "generate unit_sphere_4 \<noteq> None
     \<and> length (Points (the (generate unit_sphere_4))) = 25
     \<and> length (Polys (the (generate unit_sphere_4))) = 32
     \<and> Points (the (generate unit_sphere_4)) ! 0 = (Finite 0, Finite 0, Finite 1)
     \<and> Normals (the (generate unit_sphere_4)) ! 0 = (Finite 0, Finite 0, Finite 1)"
  using unit_sphere_scenario [of unit_sphere_4] by (simp add: unit_sphere_4_simps)

text \<open>
  Claim C8. For every integer \<open>res\<close> the constructed source has both resolutions equal
  to \<open>max res 4\<close>. \<^verbatim>\<open>RequestData\<close> does not validate them again: for any source,
  whatever its resolutions, the sizes of the mesh it returns are those of the loops over
  the fields as they are (4 points and 2 triangles for resolutions of 1).
\<close>

theorem constructor_clamps_once:
  "ThetaResolution (vtkTexturedSphereSource_new res) = max res 4
     \<and> PhiResolution (vtkTexturedSphereSource_new res) = max res 4
     \<and> (generate self = Some mesh \<longrightarrow>
          length (Points mesh) = nat (ThetaResolution self + 1) * nat (PhiResolution self + 1)
        \<and> length (Polys mesh) = nat (ThetaResolution self) * (nat (PhiResolution self) * 2))"
proof -
  have "length (Points mesh) = nat (ThetaResolution self + 1) * nat (PhiResolution self + 1)
        \<and> length (Polys mesh) = nat (ThetaResolution self) * (nat (PhiResolution self) * 2)"
    if "generate self = Some mesh"
    by (simp add: generate_Some(1) [OF that] length_Points_run_loops length_Polys_run_loops)
  then show ?thesis
    by (simp add: vtkTexturedSphereSource_new_def Let_def max_def)
qed

theorem constructor_clamps_once_witness:
  "generate sphere_1 \<noteq> None
     \<and> ThetaResolution (vtkTexturedSphereSource_new 1) = 4
     \<and> PhiResolution (vtkTexturedSphereSource_new 1) = 4
     \<and> length (Points (the (generate sphere_1))) = 4
     \<and> length (Polys (the (generate sphere_1))) = 2"
  using constructor_clamps_once [of 1 sphere_1 "the (generate sphere_1)"]
  by (simp add: sphere_1_returns) (simp add: sphere_1_def)




text \<open>
  Claim C10, as amended. For every valid source whose number of points
  \<open>(PhiResolution + 1) * (ThetaResolution + 1)\<close> is at most \<open>INT_MAX\<close>, the call
  returns and every id of an emitted triangle lies in \<open>[0, (PhiResolution + 1) * (ThetaResolution + 1))\<close> and so is
  the position of a point of the mesh; the largest id emitted is the last position,
  \<open>(PhiResolution + 1) * (ThetaResolution + 1) - 1\<close>. The claim as written fails for the
  sphere with both resolutions 46340, whose last cell holds a negative id.
\<close>

theorem triangle_ids_reference_points:
  assumes "4 \<le> ThetaResolution self" and "4 \<le> PhiResolution self"
    and "(PhiResolution self + 1) * (ThetaResolution self + 1) \<le> INT_MAX"
  shows "generate self \<noteq> None
       \<and> (\<forall>mesh. generate self = Some mesh \<longrightarrow>
           ((\<forall>k \<in> set (poly_ids mesh).
                0 \<le> k \<and> k < (PhiResolution self + 1) * (ThetaResolution self + 1)
                  \<and> nat k < length (Points mesh))
           \<and> Max (set (poly_ids mesh)) =
                (PhiResolution self + 1) * (ThetaResolution self + 1) - 1))"
proof -
  have "ThetaResolution self < INT_MAX \<and> PhiResolution self < INT_MAX"
    using assms(1-3) by (rule point_count_bounds_resolutions)
  then have "generate self \<noteq> None"
    by (simp add: generate_returns)
  then show ?thesis
    using triangle_ids_reference_points_mesh [OF assms] by blast
qed

theorem triangle_ids_reference_points_witness:
  "generate unit_sphere_4 \<noteq> None \<and> Max (set (poly_ids (the (generate unit_sphere_4)))) = 24"
proof -
  let ?m = "the (generate unit_sphere_4)"
  have "4 \<le> ThetaResolution unit_sphere_4" "4 \<le> PhiResolution unit_sphere_4"
    "(PhiResolution unit_sphere_4 + 1) * (ThetaResolution unit_sphere_4 + 1) \<le> INT_MAX"
    by (simp_all add: unit_sphere_4_simps)
  note inst = triangle_ids_reference_points [OF this]
  from inst have ret: "generate unit_sphere_4 \<noteq> None" by blast
  then have "generate unit_sphere_4 = Some ?m" by auto
  with inst have "Max (set (poly_ids ?m)) =
      (PhiResolution unit_sphere_4 + 1) * (ThetaResolution unit_sphere_4 + 1) - 1"
    by blast
  with ret show ?thesis by (simp add: unit_sphere_4_simps)
qed

theorem negative_triangle_id_counterexample:
  "generate sphere_46340 \<noteq> None
     \<and> - 2147479016 \<in> set (poly_ids (the (generate sphere_46340)))
     \<and> \<not> (0::int) \<le> - 2147479016"
proof -
  have "cell_A sphere_46340 46339 46339 = (2147441938, 2147441939, - 2147479016)"
    by (simp add: sphere_46340_def cell_A_def Let_def add32_def mul32_def wrap32_def add64_def wrap64_def)
  then have "- 2147479016 \<in> set (cell_ids (cell_A sphere_46340 46339 46339))"
    by (simp add: cell_ids_def)
  moreover have "(46339::int) \<in> {0..ThetaResolution sphere_46340 - 1}"
    "(46339::int) \<in> {0..PhiResolution sphere_46340 - 1}"
    by (simp_all add: sphere_46340_def)
  ultimately have "- 2147479016 \<in> set (poly_ids (run_loops sphere_46340))"
    unfolding set_poly_ids_run_loops by blast
  then show ?thesis by (simp add: sphere_46340_returns)
qed

end
